theory Spec2Isabelle
  imports Main
begin

section \<open>Values and collaborators of the error event model\<close>

text \<open>
  The development embeds \<^verbatim>\<open>model/error/event.go\<close> of the APM server: the decoder
  \<^verbatim>\<open>DecodeEvent\<close>, the transformer \<^verbatim>\<open>Transform\<close> with its helpers, the culprit
  resolution \<^verbatim>\<open>updateCulprit\<close> and the grouping key \<^verbatim>\<open>calcGroupingKey\<close>.

  A Go \<^verbatim>\<open>string\<close> is a sequence of bytes: it is a \<^typ>\<open>string\<close> here (a list of
  8-bit characters). A pointer that may be nil (\<^verbatim>\<open>*string\<close>, \<^verbatim>\<open>*bool\<close>,
  \<^verbatim>\<open>*Exception\<close>) is an \<^typ>\<open>'a option\<close>. A value of the empty interface
  \<^verbatim>\<open>interface{}\<close> is a \<open>val\<close>, the dynamic types the event model meets.
\<close>

typedecl float64

datatype val =
    VNil
  | VBool bool
  | VInt int
  | VFloat float64
  | VStr string
  | VNumber string
  | VMap "string \<Rightarrow> val option"
  | VSlice "val list"

type_synonym MapStr = "string \<Rightarrow> val option"

text \<open>
  A \<^verbatim>\<open>time.Time\<close> is an instant; the model counts its nanoseconds from the zero
  value of the type (January 1 of year 1, 00:00:00 UTC), so that \<^verbatim>\<open>IsZero\<close> is the
  comparison with 0.
\<close>

type_synonym Time = int

definition IsZero :: "Time \<Rightarrow> bool" where
  "IsZero t = (t = 0)"

text \<open>The context objects an event refers to belong to other packages.\<close>

typedecl metadata_User
typedecl metadata_Service
typedecl model_Labels
typedecl model_Page
typedecl model_Http
typedecl model_Url
typedecl model_Custom

text \<open>
  Modelled from the spec: the declaration of \<^verbatim>\<open>model.Config\<close> is not part of the
  sources. The specification names one setting of the configuration, the server-side
  flag that lets the experimental payload through; the decoder hands the configuration
  to the context decoder and does not read it.
\<close>

datatype model_Config = Config bool

text \<open>
  The context that \<^verbatim>\<open>model.DecodeContext\<close> returns: the shared attributes of the
  request, which the event refers to.
\<close>

record model_Context =
  User :: "metadata_User option"
  Labels :: "model_Labels option"
  Page :: "model_Page option"
  Http :: "model_Http option"
  Url :: "model_Url option"
  Custom :: "model_Custom option"
  Service :: "metadata_Service option"
  Experimental :: val

section \<open>The data model\<close>

text \<open>
  Modelled from the spec: the declaration of \<^verbatim>\<open>model.StacktraceFrame\<close> is not part of
  the sources. The frame has a filename, an optional function, an optional module, a
  numeric line number and the flag \<^verbatim>\<open>ExcludeFromGrouping\<close>; the two capability queries
  \<^verbatim>\<open>IsSourcemapApplied()\<close> and \<^verbatim>\<open>IsLibraryFrame()\<close> are the fields holding their
  answers. \<^verbatim>\<open>Lineno\<close> is a Go \<^verbatim>\<open>int\<close>.
\<close>

record StacktraceFrame =
  Filename :: string
  Lineno :: int
  Module :: "string option"
  Function :: "string option"
  ExcludeFromGrouping :: bool
  IsSourcemapApplied :: bool
  IsLibraryFrame :: bool

type_synonym Stacktrace = "StacktraceFrame list"

record Exception =
  Message :: "string option"
  Module :: "string option"
  Code :: val
  Attributes :: val
  Stacktrace :: Stacktrace
  Type :: "string option"
  Handled :: "bool option"

record Log =
  Message :: string
  Level :: "string option"
  ParamMessage :: "string option"
  LoggerName :: "string option"
  Stacktrace :: Stacktrace

record Event =
  Id' :: "string option"
  TransactionId :: "string option"
  TraceId :: "string option"
  ParentId :: "string option"
  Timestamp :: Time
  Culprit :: "string option"
  User :: "metadata_User option"
  Labels :: "model_Labels option"
  Page :: "model_Page option"
  Http :: "model_Http option"
  Url :: "model_Url option"
  Custom :: "model_Custom option"
  Service :: "metadata_Service option"
  Exception :: "Exception option"
  Log :: "Log option"
  TransactionSampled :: "bool option"
  TransactionType :: "string option"
  Experimental :: val
  data :: MapStr

section \<open>The grouping key\<close>

text \<open>
  The key writes into an MD5 digest. A digest is a function of the bytes written to it
  so far, so the field \<open>hash\<close> holds these bytes, and \<^verbatim>\<open>Sum\<close> is a parameter
  \<open>md5\<close> applied to them.
\<close>

record groupingKey =
  hash :: string
  empty :: bool

definition newGroupingKey :: groupingKey where
  "newGroupingKey = \<lparr>hash = [], empty = True\<rparr>"

text \<open>\<^verbatim>\<open>add\<close> returns whether it wrote, beside the key as it leaves it.\<close>

definition groupingKey_add :: "groupingKey \<Rightarrow> string option \<Rightarrow> groupingKey \<times> bool" where
  "groupingKey_add k s =
     (case s of
        None \<Rightarrow> (k, False)
      | Some str \<Rightarrow> (k\<lparr>hash := hash k @ str, empty := False\<rparr>, True))"

definition addEither :: "groupingKey \<Rightarrow> string option \<Rightarrow> string \<Rightarrow> groupingKey" where
  "addEither k s1 s2 =
     (case groupingKey_add k s1 of
        (k1, ok) \<Rightarrow> if \<not> ok then fst (groupingKey_add k1 (Some s2)) else k1)"

text \<open>\<^verbatim>\<open>hex.EncodeToString\<close>: two lower-case hexadecimal digits for each byte.\<close>

definition hexdigit :: "nat \<Rightarrow> char" where
  "hexdigit n = ''0123456789abcdef'' ! (n mod 16)"

fun EncodeToString :: "string \<Rightarrow> string" where
  "EncodeToString [] = []"
| "EncodeToString (c # cs) =
     hexdigit (of_char c div 16) # hexdigit (of_char c mod 16) # EncodeToString cs"

definition groupingKey_String :: "(string \<Rightarrow> string) \<Rightarrow> groupingKey \<Rightarrow> string" where
  "groupingKey_String md5 k = EncodeToString (md5 (hash k))"

text \<open>
  The conversion \<^verbatim>\<open>string(i)\<close> of a Go integer: the UTF-8 encoding of the code point
  \<open>i\<close>, and of U+FFFD when \<open>i\<close> is no valid code point (negative, beyond U+10FFFF
  or a surrogate).
\<close>

definition utf8 :: "int \<Rightarrow> string" where
  "utf8 r =
     (if r < 0x80 then [char_of r]
      else if r < 0x800 then [char_of (0xC0 + r div 0x40), char_of (0x80 + r mod 0x40)]
      else if r < 0x10000 then
        [char_of (0xE0 + r div 0x1000), char_of (0x80 + r div 0x40 mod 0x40),
         char_of (0x80 + r mod 0x40)]
      else
        [char_of (0xF0 + r div 0x40000), char_of (0x80 + r div 0x1000 mod 0x40),
         char_of (0x80 + r div 0x40 mod 0x40), char_of (0x80 + r mod 0x40)])"

definition string_of_int :: "int \<Rightarrow> string" where
  "string_of_int i =
     (if i < 0 \<or> 0x10FFFF < i \<or> (0xD800 \<le> i \<and> i \<le> 0xDFFF) then utf8 0xFFFD else utf8 i)"

text \<open>\<^verbatim>\<open>strconv.Itoa\<close>: the decimal digits, after a minus sign for a negative number.\<close>

fun digits :: "nat \<Rightarrow> string" where
  "digits n =
     (if n < 10 then [char_of (48 + n)] else digits (n div 10) @ [char_of (48 + n mod 10)])"

declare digits.simps [simp del]

definition Itoa :: "int \<Rightarrow> string" where
  "Itoa i = (if i < 0 then CHR ''-'' # digits (nat (- i)) else digits (nat i))"

text \<open>
  \<^verbatim>\<open>calcGroupingKey\<close>, in the three parts of its body. First the key is created, the
  exception type and the log's parameterised message are written and the stacktrace is
  chosen (a nil slice has length 0 and no elements: it is the empty list).
\<close>

definition keyAndStacktrace :: "Event \<Rightarrow> groupingKey \<times> Stacktrace" where
  "keyAndStacktrace e =
     (let k = newGroupingKey;
          st = [];
          (k, st) = (case Exception e of
                       None \<Rightarrow> (k, st)
                     | Some ex \<Rightarrow> (fst (groupingKey_add k (Type ex)), Exception.Stacktrace ex));
          (k, st) = (case Log e of
                       None \<Rightarrow> (k, st)
                     | Some l \<Rightarrow>
                         (fst (groupingKey_add k (ParamMessage l)),
                          if st = [] \<or> length st = 0 then Log.Stacktrace l else st))
      in (k, st))"

text \<open>The loop over the frames of the chosen stacktrace.\<close>

fun frameLoop :: "groupingKey \<Rightarrow> Stacktrace \<Rightarrow> groupingKey" where
  "frameLoop k [] = k"
| "frameLoop k (fr # st) =
     (if ExcludeFromGrouping fr then frameLoop k st
      else frameLoop
             (addEither (addEither k (StacktraceFrame.Module fr) (Filename fr))
                (Function fr) (string_of_int (Lineno fr)))
             st)"

text \<open>The messages, written only into a key that is still empty.\<close>

definition messageFallback :: "Event \<Rightarrow> groupingKey \<Rightarrow> groupingKey" where
  "messageFallback e k =
     (if empty k then
        (case Exception e of
           Some ex \<Rightarrow> fst (groupingKey_add k (Exception.Message ex))
         | None \<Rightarrow>
             (case Log e of
                Some l \<Rightarrow> fst (groupingKey_add k (Some (Log.Message l)))
              | None \<Rightarrow> k))
      else k)"

definition activeStacktrace :: "Event \<Rightarrow> Stacktrace" where
  "activeStacktrace e = snd (keyAndStacktrace e)"

definition keyAfterFrames :: "Event \<Rightarrow> groupingKey" where
  "keyAfterFrames e = frameLoop (fst (keyAndStacktrace e)) (snd (keyAndStacktrace e))"

definition finalKey :: "Event \<Rightarrow> groupingKey" where
  "finalKey e = messageFallback e (keyAfterFrames e)"

definition calcGroupingKey :: "(string \<Rightarrow> string) \<Rightarrow> Event \<Rightarrow> string" where
  "calcGroupingKey md5 e = groupingKey_String md5 (finalKey e)"

text \<open>
  What a frame contributes to the digest: the module, else the filename; then the
  function, else the converted line number. Frames excluded from grouping contribute
  nothing.
\<close>

definition orEmpty :: "string option \<Rightarrow> string" where
  "orEmpty s = (case s of None \<Rightarrow> [] | Some str \<Rightarrow> str)"

definition frameInput :: "StacktraceFrame \<Rightarrow> string" where
  "frameInput fr =
     (case StacktraceFrame.Module fr of None \<Rightarrow> Filename fr | Some m \<Rightarrow> m) @
     (case Function fr of None \<Rightarrow> string_of_int (Lineno fr) | Some f \<Rightarrow> f)"

definition groupedFrames :: "Stacktrace \<Rightarrow> Stacktrace" where
  "groupedFrames st = filter (\<lambda>fr. \<not> ExcludeFromGrouping fr) st"

section \<open>The culprit\<close>

text \<open>
  The request's \<^verbatim>\<open>transform.Context\<close>: the time of the request, whether the
  configuration holds a source-map mapper (\<^verbatim>\<open>Config.SmapMapper != nil\<close>), and the
  metadata of the request, of which the transformer uses \<^verbatim>\<open>Metadata.Set\<close> only.
\<close>

record Context =
  RequestTime :: Time
  SmapMapper :: bool
  Metadata_Set :: "MapStr \<Rightarrow> MapStr"

fun findSmappedNonLibraryFrame :: "Stacktrace \<Rightarrow> StacktraceFrame option" where
  "findSmappedNonLibraryFrame [] = None"
| "findSmappedNonLibraryFrame (fr # frames) =
     (if IsSourcemapApplied fr \<and> \<not> IsLibraryFrame fr then Some fr
      else findSmappedNonLibraryFrame frames)"

definition updateCulprit :: "Context \<Rightarrow> Event \<Rightarrow> Event" where
  "updateCulprit tctx e =
     (if \<not> SmapMapper tctx then e
      else
        let fr = None;
            fr = (case Log e of
                    Some l \<Rightarrow> findSmappedNonLibraryFrame (Log.Stacktrace l)
                  | None \<Rightarrow> fr);
            fr = (case fr of
                    None \<Rightarrow>
                      (case Exception e of
                         Some ex \<Rightarrow> findSmappedNonLibraryFrame (Exception.Stacktrace ex)
                       | None \<Rightarrow> fr)
                  | Some f \<Rightarrow> fr)
        in case fr of
             None \<Rightarrow> e
           | Some f \<Rightarrow>
               let culprit = Filename f;
                   culprit = (case Function f of
                                Some fn \<Rightarrow> culprit @ '' in '' @ fn
                              | None \<Rightarrow> culprit)
               in e\<lparr>Culprit := Some culprit\<rparr>)"

text \<open>
  The culprit in the words of the specification: the first frame that is source-mapped
  and no library frame, looked for in the log's stacktrace and then in the
  exception's, named by its filename and, when it has one, its function.
\<close>

definition smappedNonLibrary :: "StacktraceFrame \<Rightarrow> bool" where
  "smappedNonLibrary fr = (IsSourcemapApplied fr \<and> \<not> IsLibraryFrame fr)"

definition logFrames :: "Event \<Rightarrow> Stacktrace" where
  "logFrames e = (case Log e of None \<Rightarrow> [] | Some l \<Rightarrow> Log.Stacktrace l)"

definition exceptionFrames :: "Event \<Rightarrow> Stacktrace" where
  "exceptionFrames e = (case Exception e of None \<Rightarrow> [] | Some ex \<Rightarrow> Exception.Stacktrace ex)"

definition culpritOf :: "StacktraceFrame \<Rightarrow> string" where
  "culpritOf fr = Filename fr @ (case Function fr of None \<Rightarrow> [] | Some fn \<Rightarrow> '' in '' @ fn)"

section \<open>The transformer\<close>

text \<open>
  The methods of other packages and of the Go library that the transformer calls are
  fields of one record of collaborators: the MD5 sum of the bytes written to a digest,
  \<^verbatim>\<open>fmt.Sprintf("%.0f", _)\<close>, the transformation of a stacktrace (which returns the frame
  documents and the frames as it leaves them) and the projections of the context
  objects to their documents. A nil result is \<open>None\<close>.
\<close>

record Collaborators =
  md5_Sum :: "string \<Rightarrow> string"
  Sprintf_f0 :: "float64 \<Rightarrow> string"
  Stacktrace_Transform :: "Context \<Rightarrow> Stacktrace \<Rightarrow> val option \<times> Stacktrace"
  User_Fields :: "metadata_User option \<Rightarrow> val option"
  User_ClientFields :: "metadata_User option \<Rightarrow> val option"
  User_UserAgentFields :: "metadata_User option \<Rightarrow> val option"
  Service_Fields :: "metadata_Service option \<Rightarrow> val option"
  Service_AgentFields :: "metadata_Service option \<Rightarrow> val option"
  Labels_Fields :: "model_Labels option \<Rightarrow> val option"
  Page_Fields :: "model_Page option \<Rightarrow> val option"
  Http_Fields :: "model_Http option \<Rightarrow> val option"
  Url_Fields :: "model_Url option \<Rightarrow> val option"
  Custom_Fields :: "model_Custom option \<Rightarrow> val option"

text \<open>
  Modelled from the spec: the package \<^verbatim>\<open>utility\<close> is not part of the sources. Of its
  functions the specification says: \<^verbatim>\<open>Set\<close> writes a field whose value is present and
  omits the field from the document when the value is absent (nil is never written);
  \<^verbatim>\<open>Update\<close> overlays a present value; \<^verbatim>\<open>DeepUpdate\<close> merges maps key by key,
  recursing into nested maps and overwriting on a collision of scalars; \<^verbatim>\<open>AddId\<close>
  writes the sub-object with the field id only for an identifier that is present and not
  empty; \<^verbatim>\<open>TimeAsMicros\<close> is the instant in microseconds since the Unix epoch. The
  value passed is an option: \<open>None\<close> is the nil interface, a nil pointer or a nil map.
\<close>

definition utility_Set :: "MapStr \<Rightarrow> string \<Rightarrow> val option \<Rightarrow> MapStr" where
  "utility_Set m key v = (case v of None \<Rightarrow> m(key := None) | Some x \<Rightarrow> m(key \<mapsto> x))"

definition utility_Update :: "MapStr \<Rightarrow> string \<Rightarrow> val option \<Rightarrow> MapStr" where
  "utility_Update m key v = (case v of None \<Rightarrow> m | Some x \<Rightarrow> m(key \<mapsto> x))"

primrec deepMerge :: "val \<Rightarrow> val \<Rightarrow> val" where
  "deepMerge VNil new = new"
| "deepMerge (VBool b) new = new"
| "deepMerge (VInt i) new = new"
| "deepMerge (VFloat x) new = new"
| "deepMerge (VStr s) new = new"
| "deepMerge (VNumber n) new = new"
| "deepMerge (VSlice vs) new = new"
| "deepMerge (VMap old) new =
     (case new of
        VMap upd \<Rightarrow>
          VMap (\<lambda>k. case upd k of
                       None \<Rightarrow> old k
                     | Some x \<Rightarrow>
                         (case map_option deepMerge (old k) of
                            None \<Rightarrow> Some x
                          | Some merge \<Rightarrow> Some (merge x)))
      | _ \<Rightarrow> new)"

definition utility_DeepUpdate :: "MapStr \<Rightarrow> string \<Rightarrow> val option \<Rightarrow> MapStr" where
  "utility_DeepUpdate m key v =
     (case v of
        None \<Rightarrow> m
      | Some x \<Rightarrow> (case m key of None \<Rightarrow> m(key \<mapsto> x) | Some old \<Rightarrow> m(key \<mapsto> deepMerge old x)))"

definition utility_AddId :: "MapStr \<Rightarrow> string \<Rightarrow> string option \<Rightarrow> MapStr" where
  "utility_AddId m key ident =
     (case ident of
        None \<Rightarrow> m
      | Some s \<Rightarrow> if s = [] then m else m(key \<mapsto> VMap [''id'' \<mapsto> VStr s]))"

definition unixEpoch :: Time where
  "unixEpoch = 62135596800 * 1000000000"

definition utility_TimeAsMicros :: "Time \<Rightarrow> int" where
  "utility_TimeAsMicros t = (t - unixEpoch) div 1000"

text \<open>A value of the empty interface, passed on: nil is absent.\<close>

definition iface :: "val \<Rightarrow> val option" where
  "iface v = (case v of VNil \<Rightarrow> None | _ \<Rightarrow> Some v)"

definition Event_add :: "Event \<Rightarrow> string \<Rightarrow> val option \<Rightarrow> Event" where
  "Event_add e key v = e\<lparr>data := utility_Set (data e) key v\<rparr>"

text \<open>
  \<^verbatim>\<open>addException\<close>. The switch on the dynamic type of the code has a case for
  \<^verbatim>\<open>int\<close>, \<^verbatim>\<open>float64\<close>, \<^verbatim>\<open>string\<close> and \<^verbatim>\<open>json.Number\<close> (a string type, whose
  \<^verbatim>\<open>String()\<close> is the string itself) and no default.
\<close>

definition addException :: "Collaborators \<Rightarrow> Context \<Rightarrow> Event \<Rightarrow> Event" where
  "addException X tctx e =
     (case Exception e of
        None \<Rightarrow> e
      | Some exc \<Rightarrow>
          let ex = Map.empty;
              ex = utility_Set ex ''message'' (map_option VStr (Exception.Message exc));
              ex = utility_Set ex ''module'' (map_option VStr (Exception.Module exc));
              ex = utility_Set ex ''attributes'' (iface (Attributes exc));
              ex = utility_Set ex ''type'' (map_option VStr (Type exc));
              ex = utility_Set ex ''handled'' (map_option VBool (Handled exc));
              ex = (case Code exc of
                      VInt code \<Rightarrow> utility_Set ex ''code'' (Some (VStr (Itoa code)))
                    | VFloat code \<Rightarrow> utility_Set ex ''code'' (Some (VStr (Sprintf_f0 X code)))
                    | VStr code \<Rightarrow> utility_Set ex ''code'' (Some (VStr code))
                    | VNumber code \<Rightarrow> utility_Set ex ''code'' (Some (VStr code))
                    | _ \<Rightarrow> ex);
              (st, frames) = Stacktrace_Transform X tctx (Exception.Stacktrace exc);
              ex = utility_Set ex ''stacktrace'' st;
              e = e\<lparr>Exception := Some (exc\<lparr>Exception.Stacktrace := frames\<rparr>)\<rparr>
          in Event_add e ''exception'' (Some (VSlice [VMap ex])))"

definition addLog :: "Collaborators \<Rightarrow> Context \<Rightarrow> Event \<Rightarrow> Event" where
  "addLog X tctx e =
     (case Log e of
        None \<Rightarrow> e
      | Some lg \<Rightarrow>
          let log = Map.empty;
              log = utility_Set log ''message'' (Some (VStr (Log.Message lg)));
              log = utility_Set log ''param_message'' (map_option VStr (ParamMessage lg));
              log = utility_Set log ''logger_name'' (map_option VStr (LoggerName lg));
              log = utility_Set log ''level'' (map_option VStr (Level lg));
              (st, frames) = Stacktrace_Transform X tctx (Log.Stacktrace lg);
              log = utility_Set log ''stacktrace'' st;
              e = e\<lparr>Log := Some (lg\<lparr>Log.Stacktrace := frames\<rparr>)\<rparr>
          in Event_add e ''log'' (Some (VMap log)))"

definition addGroupingKey :: "Collaborators \<Rightarrow> Event \<Rightarrow> Event" where
  "addGroupingKey X e = Event_add e ''grouping_key'' (Some (VStr (calcGroupingKey (md5_Sum X) e)))"

text \<open>\<^verbatim>\<open>fields\<close> returns the document \<open>e.data\<close>, beside the event as it leaves it.\<close>

definition Event_fields :: "Collaborators \<Rightarrow> Context \<Rightarrow> Event \<Rightarrow> MapStr \<times> Event" where
  "Event_fields X tctx e =
     (let e = e\<lparr>data := Map.empty\<rparr>;
          e = Event_add e ''id'' (map_option VStr (Id' e));
          e = Event_add e ''page'' (Page_Fields X (Page e));
          e = addException X tctx e;
          e = addLog X tctx e;
          e = updateCulprit tctx e;
          e = Event_add e ''culprit'' (map_option VStr (Culprit e));
          e = Event_add e ''custom'' (Custom_Fields X (Custom e));
          e = addGroupingKey X e
      in (data e, e))"

text \<open>The counters of the package, and the event handed to the publisher.\<close>

record Counters =
  transformations :: int
  stacktraceCounter :: int
  frameCounter :: int

definition addStacktraceCounter :: "Counters \<Rightarrow> Stacktrace \<Rightarrow> Counters" where
  "addStacktraceCounter c st =
     (let frames = int (length st)
      in if frames > 0
         then c\<lparr>stacktraceCounter := stacktraceCounter c + 1,
                frameCounter := frameCounter c + frames\<rparr>
         else c)"

record beat_Event =
  Fields :: MapStr
  Timestamp :: Time

definition processorEntry :: val where
  "processorEntry = VMap [''name'' \<mapsto> VStr ''error'', ''event'' \<mapsto> VStr ''error'']"

definition Transform ::
  "Collaborators \<Rightarrow> Context \<Rightarrow> Counters \<Rightarrow> Event \<Rightarrow> beat_Event list \<times> Event \<times> Counters" where
  "Transform X tctx c e =
     (let c = c\<lparr>transformations := transformations c + 1\<rparr>;
          c = (case Exception e of
                 Some ex \<Rightarrow> addStacktraceCounter c (Exception.Stacktrace ex)
               | None \<Rightarrow> c);
          c = (case Log e of
                 Some l \<Rightarrow> addStacktraceCounter c (Log.Stacktrace l)
               | None \<Rightarrow> c);
          (error, e) = Event_fields X tctx e;
          fields = [''error'' \<mapsto> VMap error, ''processor'' \<mapsto> processorEntry];
          fields = Metadata_Set tctx fields;
          fields = utility_Update fields ''user'' (User_Fields X (User e));
          fields = utility_DeepUpdate fields ''client'' (User_ClientFields X (User e));
          fields = utility_DeepUpdate fields ''user_agent'' (User_UserAgentFields X (User e));
          fields = utility_DeepUpdate fields ''service'' (Service_Fields X (Service e));
          fields = utility_DeepUpdate fields ''agent'' (Service_AgentFields X (Service e));
          fields = utility_DeepUpdate fields ''labels'' (Labels_Fields X (Labels e));
          fields = utility_Set fields ''http'' (Http_Fields X (Http e));
          fields = utility_Set fields ''url'' (Url_Fields X (Url e));
          fields = utility_Set fields ''experimental'' (iface (Experimental e));
          fields =
            (if TransactionSampled e \<noteq> None \<or> TransactionType e \<noteq> None \<or>
                (case TransactionId e of None \<Rightarrow> False | Some s \<Rightarrow> s \<noteq> [])
             then
               let transaction = Map.empty;
                   transaction = utility_Set transaction ''id'' (map_option VStr (TransactionId e));
                   transaction = utility_Set transaction ''type'' (map_option VStr (TransactionType e));
                   transaction = utility_Set transaction ''sampled''
                                   (map_option VBool (TransactionSampled e))
               in utility_Set fields ''transaction'' (Some (VMap transaction))
             else fields);
          fields = utility_AddId fields ''parent'' (ParentId e);
          fields = utility_AddId fields ''trace'' (TraceId e);
          e = (if IsZero (Event.Timestamp e) then e\<lparr>Event.Timestamp := RequestTime tctx\<rparr> else e);
          fields = utility_Set fields ''timestamp''
                     (Some (VInt (utility_TimeAsMicros (Event.Timestamp e))))
      in ([\<lparr>Fields = fields, Timestamp = Event.Timestamp e\<rparr>], e, c))"

text \<open>
  The transaction sub-object in the words of the specification: it is emitted when the
  sampled flag is present, or the type is present, or the identifier is present and not
  empty, and holds those of id, type and sampled that are present.
\<close>

definition transactionCondition :: "Event \<Rightarrow> bool" where
  "transactionCondition e =
     (TransactionSampled e \<noteq> None \<or> TransactionType e \<noteq> None \<or>
      (TransactionId e \<noteq> None \<and> TransactionId e \<noteq> Some []))"

definition transactionObject :: "Event \<Rightarrow> MapStr" where
  "transactionObject e =
     (\<lambda>k. if k = ''id'' then map_option VStr (TransactionId e)
          else if k = ''type'' then map_option VStr (TransactionType e)
          else if k = ''sampled'' then map_option VBool (TransactionSampled e)
          else None)"

section \<open>The decoder\<close>

text \<open>
  Modelled from the spec: \<^verbatim>\<open>utility.ManualDecoder\<close> and \<^verbatim>\<open>model.DecodeStacktrace\<close> are
  not part of the sources. The specification says that a field of the wrong type, a
  malformed timestamp and a malformed stacktrace are failures which are accumulated
  (several may occur in one record) and surfaced as one combined error; that an absent
  or null field is no failure and gives nil (for the timestamp the zero value); that
  the timestamp is an integer of microseconds since the epoch; and that the decoding of
  a stacktrace is always attempted, gives no stacktrace when the client omitted it or a
  frame is malformed, and adds its failure to those before it. The combined error
  \<open>FieldDecodeErrors\<close> lists the failed fields, each by its path, in the order of the
  attempts. The decoding of the frames themselves and of the context are collaborators.

  The other errors are the two that \<^verbatim>\<open>DecodeEvent\<close> creates itself, the error of the
  context decoder and an error handed in by the caller.
\<close>

datatype error =
    MissingInput
  | InvalidType
  | ContextDecodeError string
  | CallerError string
  | FieldDecodeErrors "string list list"

record ManualDecoder =
  Err :: "error option"

definition fail :: "error option \<Rightarrow> string list \<Rightarrow> error option" where
  "fail err path =
     (case err of
        None \<Rightarrow> Some (FieldDecodeErrors [path])
      | Some (FieldDecodeErrors paths) \<Rightarrow> Some (FieldDecodeErrors (paths @ [path]))
      | Some other \<Rightarrow> Some other)"

fun getDeep :: "MapStr \<Rightarrow> string list \<Rightarrow> MapStr" where
  "getDeep m [] = m"
| "getDeep m (k # keys) = (case m k of Some (VMap inner) \<Rightarrow> getDeep inner keys | _ \<Rightarrow> Map.empty)"

definition StringPtr ::
  "ManualDecoder \<Rightarrow> MapStr \<Rightarrow> string \<Rightarrow> string list \<Rightarrow> string option \<times> ManualDecoder" where
  "StringPtr d base key keys =
     (case getDeep base keys key of
        None \<Rightarrow> (None, d)
      | Some VNil \<Rightarrow> (None, d)
      | Some (VStr s) \<Rightarrow> (Some s, d)
      | Some other \<Rightarrow> (None, d\<lparr>Err := fail (Err d) (keys @ [key])\<rparr>))"

definition BoolPtr ::
  "ManualDecoder \<Rightarrow> MapStr \<Rightarrow> string \<Rightarrow> string list \<Rightarrow> bool option \<times> ManualDecoder" where
  "BoolPtr d base key keys =
     (case getDeep base keys key of
        None \<Rightarrow> (None, d)
      | Some VNil \<Rightarrow> (None, d)
      | Some (VBool b) \<Rightarrow> (Some b, d)
      | Some other \<Rightarrow> (None, d\<lparr>Err := fail (Err d) (keys @ [key])\<rparr>))"

definition TimeEpochMicro :: "ManualDecoder \<Rightarrow> MapStr \<Rightarrow> string \<Rightarrow> Time \<times> ManualDecoder" where
  "TimeEpochMicro d base key =
     (case base key of
        None \<Rightarrow> (0, d)
      | Some VNil \<Rightarrow> (0, d)
      | Some (VInt micros) \<Rightarrow> (unixEpoch + micros * 1000, d)
      | Some other \<Rightarrow> (0, d\<lparr>Err := fail (Err d) [key]\<rparr>))"

definition decoder_MapStr :: "ManualDecoder \<Rightarrow> MapStr \<Rightarrow> string \<Rightarrow> MapStr \<times> ManualDecoder" where
  "decoder_MapStr d base key =
     (case base key of
        None \<Rightarrow> (Map.empty, d)
      | Some VNil \<Rightarrow> (Map.empty, d)
      | Some (VMap m) \<Rightarrow> (m, d)
      | Some other \<Rightarrow> (Map.empty, d\<lparr>Err := fail (Err d) [key]\<rparr>))"

definition decoder_Interface :: "MapStr \<Rightarrow> string \<Rightarrow> val" where
  "decoder_Interface base key = (case base key of None \<Rightarrow> VNil | Some v \<Rightarrow> v)"

record Decoders =
  DecodeContext :: "MapStr \<Rightarrow> model_Config \<Rightarrow> error + model_Context"
  DecodeStacktraceFrames :: "val \<Rightarrow> Stacktrace option"

definition DecodeStacktrace ::
  "Decoders \<Rightarrow> val option \<Rightarrow> error option \<Rightarrow> Stacktrace option \<times> error option" where
  "DecodeStacktrace D input err =
     (case input of
        None \<Rightarrow> (None, err)
      | Some VNil \<Rightarrow> (None, err)
      | Some v \<Rightarrow>
          (case DecodeStacktraceFrames D v of
             Some st \<Rightarrow> (Some st, err)
           | None \<Rightarrow> (None, fail err [''stacktrace''])))"

text \<open>
  \<^verbatim>\<open>DecodeEvent\<close>, in four parts: the exception of the record, its log, the
  fields of the event (the struct literal, read in the order it is written), and the
  function itself. The function returns an event or nil, and an error or nil.
\<close>

definition decodeException ::
  "Decoders \<Rightarrow> MapStr \<Rightarrow> Event \<times> ManualDecoder \<Rightarrow> Event \<times> ManualDecoder" where
  "decodeException D raw state =
     (let (e, decoder) = state;
          (ex, decoder) = decoder_MapStr decoder raw ''exception'';
          (exMsg, decoder) = StringPtr decoder ex ''message'' [];
          (exType, decoder) = StringPtr decoder ex ''type'' []
      in if exMsg \<noteq> None \<or> exType \<noteq> None then
           let code = decoder_Interface ex ''code'';
               (module, decoder) = StringPtr decoder ex ''module'' [];
               attributes = decoder_Interface ex ''attributes'';
               (handled, decoder) = BoolPtr decoder ex ''handled'' [];
               exception = \<lparr>Exception.Message = exMsg, Module = module, Code = code,
                 Attributes = attributes, Stacktrace = [], Type = exType, Handled = handled\<rparr>;
               (stacktr, err) = DecodeStacktrace D (ex ''stacktrace'') (Err decoder);
               decoder = decoder\<lparr>Err := err\<rparr>;
               exception = (case stacktr of
                              Some st \<Rightarrow> exception\<lparr>Exception.Stacktrace := st\<rparr>
                            | None \<Rightarrow> exception)
           in (e\<lparr>Exception := Some exception\<rparr>, decoder)
         else (e, decoder))"

definition decodeLog ::
  "Decoders \<Rightarrow> MapStr \<Rightarrow> Event \<times> ManualDecoder \<Rightarrow> Event \<times> ManualDecoder" where
  "decodeLog D raw state =
     (let (e, decoder) = state;
          (log, decoder) = decoder_MapStr decoder raw ''log'';
          (logMsg, decoder) = StringPtr decoder log ''message'' []
      in case logMsg of
           Some msg \<Rightarrow>
             let (paramMessage, decoder) = StringPtr decoder log ''param_message'' [];
                 (level, decoder) = StringPtr decoder log ''level'' [];
                 (loggerName, decoder) = StringPtr decoder log ''logger_name'' [];
                 lg = \<lparr>Log.Message = msg, Level = level, ParamMessage = paramMessage,
                   LoggerName = loggerName, Stacktrace = []\<rparr>;
                 (stacktr, err) = DecodeStacktrace D (log ''stacktrace'') (Err decoder);
                 decoder = decoder\<lparr>Err := err\<rparr>;
                 lg = (case stacktr of
                         Some st \<Rightarrow> lg\<lparr>Log.Stacktrace := st\<rparr>
                       | None \<Rightarrow> lg)
             in (e\<lparr>Log := Some lg\<rparr>, decoder)
         | None \<Rightarrow> (e, decoder))"

definition decodeFields :: "MapStr \<Rightarrow> model_Context \<Rightarrow> Event \<times> ManualDecoder" where
  "decodeFields raw ctx =
     (let decoder = \<lparr>Err = None\<rparr>;
          (ident, decoder) = StringPtr decoder raw ''id'' [];
          (culprit, decoder) = StringPtr decoder raw ''culprit'' [];
          (timestamp, decoder) = TimeEpochMicro decoder raw ''timestamp'';
          (transactionId, decoder) = StringPtr decoder raw ''transaction_id'' [];
          (parentId, decoder) = StringPtr decoder raw ''parent_id'' [];
          (traceId, decoder) = StringPtr decoder raw ''trace_id'' [];
          (sampled, decoder) = BoolPtr decoder raw ''sampled'' [''transaction''];
          (transactionType, decoder) = StringPtr decoder raw ''type'' [''transaction''];
          e = \<lparr>Id' = ident, TransactionId = transactionId, TraceId = traceId,
            ParentId = parentId, Timestamp = timestamp, Culprit = culprit,
            User = model_Context.User ctx, Labels = model_Context.Labels ctx,
            Page = model_Context.Page ctx, Http = model_Context.Http ctx,
            Url = model_Context.Url ctx, Custom = model_Context.Custom ctx,
            Service = model_Context.Service ctx, Exception = None, Log = None,
            TransactionSampled = sampled, TransactionType = transactionType,
            Experimental = model_Context.Experimental ctx, data = Map.empty\<rparr>
      in (e, decoder))"

definition DecodeEvent ::
  "Decoders \<Rightarrow> val \<Rightarrow> model_Config \<Rightarrow> error option \<Rightarrow> Event option \<times> error option" where
  "DecodeEvent D input cfg err =
     (case err of
        Some x \<Rightarrow> (None, Some x)
      | None \<Rightarrow>
          (case input of
             VNil \<Rightarrow> (None, Some MissingInput)
           | VMap raw \<Rightarrow>
               (case DecodeContext D raw cfg of
                  Inl x \<Rightarrow> (None, Some x)
                | Inr ctx \<Rightarrow>
                    let (e, decoder) = decodeFields raw ctx;
                        (e, decoder) = decodeException D raw (e, decoder);
                        (e, decoder) = decodeLog D raw (e, decoder)
                    in if Err decoder \<noteq> None then (None, Err decoder) else (Some e, None))
           | other \<Rightarrow> (None, Some InvalidType)))"

text \<open>
  The failures of a record, field by field. A field is well-typed when it is absent,
  null or of the type expected; the bundle of the exception (of the log) is the map
  under that key; a value is present when it is there and not null.

  \<open>attemptedFailures\<close> lists the failures of the fields that \<^verbatim>\<open>DecodeEvent\<close>
  attempts, in the order of the attempts: the fields of the event, the exception's
  bundle, message and type and, only when the exception object is constructed (the
  test of line 149), its module, its handled flag and its stacktrace; then the log's
  bundle and message and, only when the log object is constructed (the test of line
  167), its other fields and its stacktrace. \<open>allFieldFailures\<close> lists the failures
  of every field of the record, both stacktraces among them, whether or not the
  objects are constructed.
\<close>

datatype kind = KString | KBool | KTime | KMap

fun wellTyped :: "kind \<Rightarrow> val option \<Rightarrow> bool" where
  "wellTyped k None = True"
| "wellTyped k (Some VNil) = True"
| "wellTyped KString (Some (VStr s)) = True"
| "wellTyped KBool (Some (VBool b)) = True"
| "wellTyped KTime (Some (VInt i)) = True"
| "wellTyped KMap (Some (VMap m)) = True"
| "wellTyped k (Some v) = False"

definition fieldFailure :: "kind \<Rightarrow> MapStr \<Rightarrow> string list \<Rightarrow> string \<Rightarrow> string list list" where
  "fieldFailure k base keys key =
     (if wellTyped k (getDeep base keys key) then [] else [keys @ [key]])"

definition stacktraceFailure :: "Decoders \<Rightarrow> val option \<Rightarrow> string list list" where
  "stacktraceFailure D input =
     (case input of
        None \<Rightarrow> []
      | Some VNil \<Rightarrow> []
      | Some v \<Rightarrow> (case DecodeStacktraceFrames D v of Some st \<Rightarrow> [] | None \<Rightarrow> [[''stacktrace'']]))"

definition rawBundle :: "MapStr \<Rightarrow> string \<Rightarrow> MapStr" where
  "rawBundle raw key = (case raw key of Some (VMap m) \<Rightarrow> m | _ \<Rightarrow> Map.empty)"

definition nonNull :: "val option \<Rightarrow> bool" where
  "nonNull v = (case v of None \<Rightarrow> False | Some VNil \<Rightarrow> False | Some x \<Rightarrow> True)"

definition stringValue :: "val option \<Rightarrow> string option" where
  "stringValue v = (case v of Some (VStr s) \<Rightarrow> Some s | _ \<Rightarrow> None)"

definition isString :: "val option \<Rightarrow> bool" where
  "isString v = (case v of Some (VStr s) \<Rightarrow> True | _ \<Rightarrow> False)"

definition attemptedExceptionFailures :: "Decoders \<Rightarrow> MapStr \<Rightarrow> string list list" where
  "attemptedExceptionFailures D raw =
     fieldFailure KMap raw [] ''exception'' @
     fieldFailure KString (rawBundle raw ''exception'') [] ''message'' @
     fieldFailure KString (rawBundle raw ''exception'') [] ''type'' @
     (if isString (rawBundle raw ''exception'' ''message'') \<or>
         isString (rawBundle raw ''exception'' ''type'')
      then fieldFailure KString (rawBundle raw ''exception'') [] ''module'' @
           fieldFailure KBool (rawBundle raw ''exception'') [] ''handled'' @
           stacktraceFailure D (rawBundle raw ''exception'' ''stacktrace'')
      else [])"

definition attemptedLogFailures :: "Decoders \<Rightarrow> MapStr \<Rightarrow> string list list" where
  "attemptedLogFailures D raw =
     fieldFailure KMap raw [] ''log'' @
     fieldFailure KString (rawBundle raw ''log'') [] ''message'' @
     (if isString (rawBundle raw ''log'' ''message'')
      then fieldFailure KString (rawBundle raw ''log'') [] ''param_message'' @
           fieldFailure KString (rawBundle raw ''log'') [] ''level'' @
           fieldFailure KString (rawBundle raw ''log'') [] ''logger_name'' @
           stacktraceFailure D (rawBundle raw ''log'' ''stacktrace'')
      else [])"

definition eventFailures :: "MapStr \<Rightarrow> string list list" where
  "eventFailures raw =
     fieldFailure KString raw [] ''id'' @
     fieldFailure KString raw [] ''culprit'' @
     fieldFailure KTime raw [] ''timestamp'' @
     fieldFailure KString raw [] ''transaction_id'' @
     fieldFailure KString raw [] ''parent_id'' @
     fieldFailure KString raw [] ''trace_id'' @
     fieldFailure KBool raw [''transaction''] ''sampled'' @
     fieldFailure KString raw [''transaction''] ''type''"

definition attemptedFailures :: "Decoders \<Rightarrow> MapStr \<Rightarrow> string list list" where
  "attemptedFailures D raw = eventFailures raw @ attemptedExceptionFailures D raw @ attemptedLogFailures D raw"

definition allFieldFailures :: "Decoders \<Rightarrow> MapStr \<Rightarrow> string list list" where
  "allFieldFailures D raw =
     eventFailures raw @
     fieldFailure KMap raw [] ''exception'' @
     fieldFailure KString (rawBundle raw ''exception'') [] ''message'' @
     fieldFailure KString (rawBundle raw ''exception'') [] ''type'' @
     fieldFailure KString (rawBundle raw ''exception'') [] ''module'' @
     fieldFailure KBool (rawBundle raw ''exception'') [] ''handled'' @
     stacktraceFailure D (rawBundle raw ''exception'' ''stacktrace'') @
     fieldFailure KMap raw [] ''log'' @
     fieldFailure KString (rawBundle raw ''log'') [] ''message'' @
     fieldFailure KString (rawBundle raw ''log'') [] ''param_message'' @
     fieldFailure KString (rawBundle raw ''log'') [] ''level'' @
     fieldFailure KString (rawBundle raw ''log'') [] ''logger_name'' @
     stacktraceFailure D (rawBundle raw ''log'' ''stacktrace'')"

definition ofFailures :: "string list list \<Rightarrow> error option" where
  "ofFailures paths = (if paths = [] then None else Some (FieldDecodeErrors paths))"

section \<open>Inputs for the concrete evaluations\<close>

definition frame0 :: StacktraceFrame where
  "frame0 = \<lparr>Filename = [], Lineno = 0, Module = None, Function = None,
     ExcludeFromGrouping = False, IsSourcemapApplied = False, IsLibraryFrame = False\<rparr>"

definition event0 :: Event where
  "event0 = \<lparr>Id' = None, TransactionId = None, TraceId = None, ParentId = None,
     Timestamp = 0, Culprit = None, User = None, Labels = None, Page = None, Http = None,
     Url = None, Custom = None, Service = None, Exception = None, Log = None,
     TransactionSampled = None, TransactionType = None, Experimental = VNil,
     data = Map.empty\<rparr>"

definition exception0 :: Exception where
  "exception0 = \<lparr>Exception.Message = None, Module = None, Code = VNil, Attributes = VNil,
     Stacktrace = [], Type = None, Handled = None\<rparr>"

definition log0 :: Log where
  "log0 = \<lparr>Message = [], Level = None, ParamMessage = None, LoggerName = None,
     Stacktrace = []\<rparr>"

definition eventAtLine :: "int \<Rightarrow> Event" where
  "eventAtLine n = event0\<lparr>Exception := Some (exception0\<lparr>Exception.Stacktrace :=
     [frame0\<lparr>Filename := ''a.go'', Lineno := n\<rparr>]\<rparr>)\<rparr>"

definition eventExcluded :: Event where
  "eventExcluded = event0\<lparr>
     Exception := Some (exception0\<lparr>Exception.Message := Some ''boom''\<rparr>),
     Log := Some (log0\<lparr>Log.Message := ''m'',
       Log.Stacktrace := [frame0\<lparr>ExcludeFromGrouping := True\<rparr>]\<rparr>)\<rparr>"

definition eventLogFrames :: Event where
  "eventLogFrames = event0\<lparr>
     Exception := Some (exception0\<lparr>Exception.Message := Some ''boom''\<rparr>),
     Log := Some (log0\<lparr>Log.Message := ''m'',
       Log.Stacktrace := [frame0\<lparr>Filename := ''b.go'', Function := Some ''f''\<rparr>]\<rparr>)\<rparr>"

definition eventMessageOnly :: Event where
  "eventMessageOnly = event0\<lparr>
     Exception := Some (exception0\<lparr>Exception.Message := Some ''boom''\<rparr>)\<rparr>"

definition eventBareFrame :: Event where
  "eventBareFrame = event0\<lparr>
     Exception := Some (exception0\<lparr>Exception.Message := Some ''boom'',
       Exception.Stacktrace := [frame0]\<rparr>)\<rparr>"

definition context0 :: Context where
  "context0 = \<lparr>RequestTime = unixEpoch + 5000, SmapMapper = True, Metadata_Set = (\<lambda>fields. fields)\<rparr>"

definition collaborators0 :: Collaborators where
  "collaborators0 = \<lparr>md5_Sum = (\<lambda>written. written), Sprintf_f0 = (\<lambda>x. []),
     Stacktrace_Transform = (\<lambda>tctx st. (None, st)),
     User_Fields = (\<lambda>u. None), User_ClientFields = (\<lambda>u. None),
     User_UserAgentFields = (\<lambda>u. None), Service_Fields = (\<lambda>s. None),
     Service_AgentFields = (\<lambda>s. None), Labels_Fields = (\<lambda>l. None),
     Page_Fields = (\<lambda>p. None), Http_Fields = (\<lambda>h. None), Url_Fields = (\<lambda>u. None),
     Custom_Fields = (\<lambda>c. None)\<rparr>"

definition counters0 :: Counters where
  "counters0 = \<lparr>transformations = 0, stacktraceCounter = 0, frameCounter = 0\<rparr>"

definition eventCulprit :: Event where
  "eventCulprit = event0\<lparr>
     Culprit := Some ''client.js'',
     Exception := Some (exception0\<lparr>Exception.Stacktrace :=
       [frame0\<lparr>Filename := ''main.js'', IsSourcemapApplied := True\<rparr>]\<rparr>),
     Log := Some (log0\<lparr>Log.Stacktrace :=
       [frame0\<lparr>Filename := ''vendor.js'', IsSourcemapApplied := True, IsLibraryFrame := True\<rparr>,
        frame0\<lparr>Filename := ''raw.js''\<rparr>,
        frame0\<lparr>Filename := ''app.js'', Function := Some ''render'', IsSourcemapApplied := True\<rparr>,
        frame0\<lparr>Filename := ''late.js'', IsSourcemapApplied := True\<rparr>]\<rparr>)\<rparr>"

definition eventSampledOnly :: Event where
  "eventSampledOnly = event0\<lparr>TransactionSampled := Some False\<rparr>"

definition eventEmptyTransactionId :: Event where
  "eventEmptyTransactionId = event0\<lparr>TransactionId := Some []\<rparr>"

definition eventWithCode :: "val \<Rightarrow> Event" where
  "eventWithCode code = event0\<lparr>Exception := Some (exception0\<lparr>Exception.Message := Some ''boom'',
     Code := code\<rparr>)\<rparr>"

definition decoders0 :: Decoders where
  "decoders0 = \<lparr>
     DecodeContext = (\<lambda>raw cfg. case raw ''context'' of
                        Some (VStr s) \<Rightarrow> Inl (ContextDecodeError s)
                      | _ \<Rightarrow> Inr \<lparr>model_Context.User = None, Labels = None, Page = None,
                                 Http = None, Url = None, Custom = None, Service = None,
                                 Experimental = VNil\<rparr>),
     DecodeStacktraceFrames = (\<lambda>v. case v of
                                 VSlice frames \<Rightarrow> Some (map (\<lambda>fr. frame0) frames)
                               | _ \<Rightarrow> None)\<rparr>"

definition rawMalformed :: MapStr where
  "rawMalformed =
     [''id'' \<mapsto> VInt 3,
      ''timestamp'' \<mapsto> VStr ''yesterday'',
      ''exception'' \<mapsto> VMap [''message'' \<mapsto> VStr ''boom'', ''handled'' \<mapsto> VStr ''yes'',
                         ''stacktrace'' \<mapsto> VStr ''none''],
      ''log'' \<mapsto> VMap [''message'' \<mapsto> VStr ''failed'', ''level'' \<mapsto> VInt 1,
                   ''stacktrace'' \<mapsto> VBool True]]"

definition rawEmptyMessages :: MapStr where
  "rawEmptyMessages =
     [''id'' \<mapsto> VStr ''e1'',
      ''exception'' \<mapsto> VMap [''message'' \<mapsto> VStr []],
      ''log'' \<mapsto> VMap [''message'' \<mapsto> VStr []]]"

definition rawNullMessages :: MapStr where
  "rawNullMessages =
     [''id'' \<mapsto> VStr ''e2'',
      ''exception'' \<mapsto> VMap [''message'' \<mapsto> VNil, ''module'' \<mapsto> VStr ''m''],
      ''log'' \<mapsto> VMap [''message'' \<mapsto> VNil, ''level'' \<mapsto> VStr ''error'']]"

definition rawGated :: MapStr where
  "rawGated =
     [''id'' \<mapsto> VStr ''e3'',
      ''exception'' \<mapsto> VMap [''message'' \<mapsto> VInt 3, ''handled'' \<mapsto> VStr ''yes'',
                         ''module'' \<mapsto> VInt 1, ''stacktrace'' \<mapsto> VStr ''none''],
      ''log'' \<mapsto> VMap [''message'' \<mapsto> VBool True, ''level'' \<mapsto> VInt 1,
                   ''stacktrace'' \<mapsto> VBool True]]"

section \<open>Properties of the grouping key\<close>

lemma add_hash: "hash (fst (groupingKey_add k s)) = hash k @ orEmpty s"
  by (simp add: groupingKey_add_def orEmpty_def split: option.split)

lemma add_empty: "empty (fst (groupingKey_add k s)) = (empty k \<and> s = None)"
  by (simp add: groupingKey_add_def split: option.split)

lemma addEither_hash:
  "hash (addEither k s1 s2) = hash k @ (case s1 of None \<Rightarrow> s2 | Some str \<Rightarrow> str)"
  by (simp add: addEither_def groupingKey_add_def split: option.split)

lemma addEither_not_empty: "\<not> empty (addEither k s1 s2)"
  by (simp add: addEither_def groupingKey_add_def split: option.split)

lemma frameLoop_hash:
  "hash (frameLoop k st) = hash k @ concat (map frameInput (groupedFrames st))"
  by (induction k st rule: frameLoop.induct)
     (simp_all add: groupedFrames_def frameInput_def addEither_hash)

lemma frameLoop_empty:
  "empty (frameLoop k st) = (empty k \<and> groupedFrames st = [])"
  by (induction k st rule: frameLoop.induct)
     (simp_all add: groupedFrames_def addEither_not_empty)

lemma keyAndStacktrace_hash:
  "hash (fst (keyAndStacktrace e)) =
     (case Exception e of None \<Rightarrow> [] | Some ex \<Rightarrow> orEmpty (Type ex)) @
     (case Log e of None \<Rightarrow> [] | Some l \<Rightarrow> orEmpty (ParamMessage l))"
  by (simp add: keyAndStacktrace_def Let_def newGroupingKey_def add_hash
      split: option.split)

lemma keyAndStacktrace_empty:
  "empty (fst (keyAndStacktrace e)) =
     ((case Exception e of None \<Rightarrow> True | Some ex \<Rightarrow> Type ex = None) \<and>
      (case Log e of None \<Rightarrow> True | Some l \<Rightarrow> ParamMessage l = None))"
  by (simp add: keyAndStacktrace_def Let_def newGroupingKey_def add_empty
      split: option.split)

lemma activeStacktrace_eq:
  "activeStacktrace e =
     (case Log e of
        None \<Rightarrow> (case Exception e of None \<Rightarrow> [] | Some ex \<Rightarrow> Exception.Stacktrace ex)
      | Some l \<Rightarrow>
          (case Exception e of
             None \<Rightarrow> Log.Stacktrace l
           | Some ex \<Rightarrow>
               if Exception.Stacktrace ex = [] then Log.Stacktrace l
               else Exception.Stacktrace ex))"
  by (simp add: activeStacktrace_def keyAndStacktrace_def Let_def split: option.split)

lemma keyAndStacktrace_invariant:
  "empty (fst (keyAndStacktrace e)) \<Longrightarrow> hash (fst (keyAndStacktrace e)) = []"
  by (simp add: keyAndStacktrace_hash keyAndStacktrace_empty orEmpty_def
      split: option.splits)

lemma keyAfterFrames_hash:
  "hash (keyAfterFrames e) =
     (case Exception e of None \<Rightarrow> [] | Some ex \<Rightarrow> orEmpty (Type ex)) @
     (case Log e of None \<Rightarrow> [] | Some l \<Rightarrow> orEmpty (ParamMessage l)) @
     concat (map frameInput (groupedFrames (activeStacktrace e)))"
  by (simp add: keyAfterFrames_def frameLoop_hash keyAndStacktrace_hash activeStacktrace_def)

lemma keyAfterFrames_invariant:
  assumes "empty (keyAfterFrames e)"
  shows "hash (keyAfterFrames e) = []"
proof -
  from assms have k: "empty (fst (keyAndStacktrace e))"
    and g: "groupedFrames (snd (keyAndStacktrace e)) = []"
    by (simp_all add: keyAfterFrames_def frameLoop_empty)
  from k have "hash (fst (keyAndStacktrace e)) = []"
    by (rule keyAndStacktrace_invariant)
  with g show ?thesis
    by (simp add: keyAfterFrames_def frameLoop_hash)
qed

text \<open>
  C1. The claim: the frames of the active stacktrace are processed in order, excluded
  frames are skipped, and each other frame feeds its module, else its filename, and
  then its function, else its line number as a decimal string (line 0 feeding "0").
  The code converts the line number with \<^verbatim>\<open>string(fr.Lineno)\<close>, which is the
  UTF-8 encoding of a code point: for the frame of file a.go at line 0 with no module
  and no function the digest receives the bytes of "a.go" and one zero byte, not the
  digit 0 that \<^verbatim>\<open>strconv.Itoa\<close> gives; and the lines 55296 and 65533, which
  differ, feed the same bytes.
\<close>

theorem calcGroupingKey_lineno_not_decimal:
  "hash (finalKey (eventAtLine 0)) = ''a.go'' @ [CHR 0x00] \<and>
   hash (finalKey (eventAtLine 0)) \<noteq> ''a.go'' @ Itoa 0 \<and>
   Itoa 0 = ''0'' \<and>
   hash (finalKey (eventAtLine 55296)) = hash (finalKey (eventAtLine 65533))"
  by code_simp

text \<open>
  C2, as stated, fails: with an exception whose stacktrace is empty and a log whose
  only frame is excluded from grouping, the key is still empty after the frames and the
  exception's message is written.
\<close>

theorem log_stacktrace_fallback_counterexample:
  "map_option Exception.Stacktrace (Exception eventExcluded) = Some [] \<and>
   map_option Log.Stacktrace (Log eventExcluded)
     = Some [frame0\<lparr>ExcludeFromGrouping := True\<rparr>] \<and>
   activeStacktrace eventExcluded = [frame0\<lparr>ExcludeFromGrouping := True\<rparr>] \<and>
   empty (keyAfterFrames eventExcluded) \<and>
   finalKey eventExcluded \<noteq> keyAfterFrames eventExcluded \<and>
   hash (finalKey eventExcluded) = ''boom''"
proof -
  have "map_option Exception.Stacktrace (Exception eventExcluded) = Some []"
    by (simp add: eventExcluded_def event0_def exception0_def)
  moreover have "map_option Log.Stacktrace (Log eventExcluded)
     = Some [frame0\<lparr>ExcludeFromGrouping := True\<rparr>]"
    by (simp add: eventExcluded_def event0_def log0_def)
  moreover have "activeStacktrace eventExcluded = [frame0\<lparr>ExcludeFromGrouping := True\<rparr>]"
    by (simp add: activeStacktrace_eq eventExcluded_def event0_def log0_def exception0_def)
  moreover have "empty (keyAfterFrames eventExcluded)"
    by code_simp
  moreover have "finalKey eventExcluded \<noteq> keyAfterFrames eventExcluded"
    by code_simp
  moreover have "hash (finalKey eventExcluded) = ''boom''"
    by code_simp
  ultimately show ?thesis by blast
qed

text \<open>
  C2, amended. For every event with an exception whose stacktrace is empty and a log
  whose stacktrace is not, the stacktrace chosen is the log's; after the frames the
  digest has received the exception type, the log's parameterised message and the
  frames of the log's stacktrace that are not excluded from grouping; and when the
  exception type or the parameterised message is present, or a frame of the log is not
  excluded, the message fallback writes nothing.
\<close>

theorem log_stacktrace_preferred:
  assumes "Exception e = Some ex" and "Exception.Stacktrace ex = []"
    and "Log e = Some l" and "Log.Stacktrace l \<noteq> []"
  shows "activeStacktrace e = Log.Stacktrace l \<and>
    hash (keyAfterFrames e) =
      orEmpty (Type ex) @ orEmpty (ParamMessage l) @
      concat (map frameInput (groupedFrames (Log.Stacktrace l))) \<and>
    (Type ex \<noteq> None \<or> ParamMessage l \<noteq> None \<or> groupedFrames (Log.Stacktrace l) \<noteq> []
       \<longrightarrow> finalKey e = keyAfterFrames e)"
proof -
  have st: "activeStacktrace e = Log.Stacktrace l"
    using assms by (simp add: activeStacktrace_eq)
  have h: "hash (keyAfterFrames e) =
      orEmpty (Type ex) @ orEmpty (ParamMessage l) @
      concat (map frameInput (groupedFrames (Log.Stacktrace l)))"
    using assms st
    by (simp add: keyAfterFrames_def frameLoop_hash keyAndStacktrace_hash
        activeStacktrace_def)
  have f: "finalKey e = keyAfterFrames e"
    if "Type ex \<noteq> None \<or> ParamMessage l \<noteq> None \<or> groupedFrames (Log.Stacktrace l) \<noteq> []"
  proof -
    from that assms st have "\<not> empty (keyAfterFrames e)"
      by (auto simp add: keyAfterFrames_def frameLoop_empty keyAndStacktrace_empty
          activeStacktrace_def)
    then show ?thesis
      by (simp add: finalKey_def messageFallback_def)
  qed
  from st h f show ?thesis by blast
qed

theorem log_stacktrace_preferred_witness:
  "activeStacktrace eventLogFrames = [frame0\<lparr>Filename := ''b.go'', Function := Some ''f''\<rparr>] \<and>
   hash (keyAfterFrames eventLogFrames) = ''b.gof'' \<and>
   finalKey eventLogFrames = keyAfterFrames eventLogFrames"
proof -
  let ?ex = "exception0\<lparr>Exception.Message := Some ''boom''\<rparr>"
  let ?l = "log0\<lparr>Log.Message := ''m'',
       Log.Stacktrace := [frame0\<lparr>Filename := ''b.go'', Function := Some ''f''\<rparr>]\<rparr>"
  have a: "Exception eventLogFrames = Some ?ex" by (simp add: eventLogFrames_def event0_def)
  have b: "Exception.Stacktrace ?ex = []" by (simp add: exception0_def)
  have c: "Log eventLogFrames = Some ?l" by (simp add: eventLogFrames_def event0_def)
  have d: "Log.Stacktrace ?l \<noteq> []" by simp
  show ?thesis
    using log_stacktrace_preferred [OF a b c d]
    by (simp add: orEmpty_def exception0_def log0_def groupedFrames_def frameInput_def
        frame0_def)
qed

text \<open>
  C3. When the key is still empty after the exception type, the log's parameterised
  message and the frames, the digest receives the exception's message if the event has
  an exception (nothing when that message is absent), otherwise the log's message if it
  has a log; and the key of an event with neither is the hexadecimal digest of the
  empty input.
\<close>

theorem message_fallback:
  "(empty (keyAfterFrames e) \<longrightarrow>
      hash (finalKey e) =
        (case Exception e of
           Some ex \<Rightarrow> orEmpty (Exception.Message ex)
         | None \<Rightarrow> (case Log e of Some l \<Rightarrow> Log.Message l | None \<Rightarrow> []))) \<and>
   (Exception e = None \<and> Log e = None \<longrightarrow>
      calcGroupingKey md5 e = EncodeToString (md5 []))"
proof (intro conjI impI)
  assume em: "empty (keyAfterFrames e)"
  then have "hash (keyAfterFrames e) = []"
    by (rule keyAfterFrames_invariant)
  with em show "hash (finalKey e) =
        (case Exception e of
           Some ex \<Rightarrow> orEmpty (Exception.Message ex)
         | None \<Rightarrow> (case Log e of Some l \<Rightarrow> Log.Message l | None \<Rightarrow> []))"
    by (simp add: finalKey_def messageFallback_def add_hash orEmpty_def
        split: option.split)
next
  assume none: "Exception e = None \<and> Log e = None"
  then have "keyAndStacktrace e = (newGroupingKey, [])"
    by (simp add: keyAndStacktrace_def)
  then have "finalKey e = newGroupingKey"
    using none
    by (simp add: finalKey_def keyAfterFrames_def messageFallback_def)
  then show "calcGroupingKey md5 e = EncodeToString (md5 [])"
    by (simp add: calcGroupingKey_def groupingKey_String_def newGroupingKey_def)
qed

theorem message_fallback_witness:
  "empty (keyAfterFrames eventMessageOnly) \<and>
   hash (finalKey eventMessageOnly) = ''boom'' \<and>
   (\<forall>md5. calcGroupingKey md5 event0 = EncodeToString (md5 []))"
proof -
  have em: "empty (keyAfterFrames eventMessageOnly)"
    by code_simp
  have ex: "Exception eventMessageOnly = Some (exception0\<lparr>Exception.Message := Some ''boom''\<rparr>)"
    by (simp add: eventMessageOnly_def event0_def)
  have none: "Exception event0 = None \<and> Log event0 = None"
    by (simp add: event0_def)
  show ?thesis
    using em none message_fallback [of eventMessageOnly] message_fallback [of event0]
    by (simp add: ex orEmpty_def)
qed

text \<open>
  C10. When the active stacktrace has a frame that is not excluded from grouping, the
  key is not empty after the loop over the frames, whatever the fields of the frame
  (the second argument of \<^verbatim>\<open>addEither\<close> is always written when the first is nil),
  and the message fallback leaves the key as it is.
\<close>

theorem grouped_frame_fills_key:
  assumes "\<exists>fr \<in> set (activeStacktrace e). \<not> ExcludeFromGrouping fr"
  shows "\<not> empty (keyAfterFrames e) \<and> finalKey e = keyAfterFrames e"
proof -
  from assms have "groupedFrames (snd (keyAndStacktrace e)) \<noteq> []"
    by (auto simp add: groupedFrames_def activeStacktrace_def filter_empty_conv)
  then have ne: "\<not> empty (keyAfterFrames e)"
    by (simp add: keyAfterFrames_def frameLoop_empty)
  then show ?thesis
    by (simp add: finalKey_def messageFallback_def)
qed

theorem grouped_frame_fills_key_witness:
  "Filename frame0 = [] \<and> Lineno frame0 = 0 \<and> StacktraceFrame.Module frame0 = None \<and>
   Function frame0 = None \<and> activeStacktrace eventBareFrame = [frame0] \<and>
   \<not> empty (keyAfterFrames eventBareFrame) \<and>
   finalKey eventBareFrame = keyAfterFrames eventBareFrame \<and>
   hash (finalKey eventBareFrame) = [CHR 0x00]"
proof -
  have st: "activeStacktrace eventBareFrame = [frame0]"
    by (simp add: activeStacktrace_eq eventBareFrame_def event0_def exception0_def)
  then have h: "\<exists>fr \<in> set (activeStacktrace eventBareFrame). \<not> ExcludeFromGrouping fr"
    by (simp add: frame0_def)
  have b: "hash (keyAfterFrames eventBareFrame) = [CHR 0x00]"
    by code_simp
  show ?thesis
    using grouped_frame_fills_key [OF h] st b
    by (simp add: frame0_def)
qed

section \<open>Properties of the culprit\<close>

lemma findSmappedNonLibraryFrame_find:
  "findSmappedNonLibraryFrame st = find smappedNonLibrary st"
  by (induction st) (simp_all add: smappedNonLibrary_def)

lemma find_two_lists:
  "find P (xs @ ys) = (case find P xs of None \<Rightarrow> find P ys | Some x \<Rightarrow> Some x)"
  by (induction xs) simp_all

text \<open>
  C4. With a source-map mapper configured, the culprit is taken from the first frame
  that is source-mapped and no library frame, the frames of the log's stacktrace coming
  before those of the exception's: the culprit of the event becomes the filename of
  that frame, followed by " in " and its function when it has one, whatever the
  culprit was; with no such frame in either stacktrace the event is unchanged.
\<close>

theorem updateCulprit_first_match:
  assumes "SmapMapper tctx"
  shows "updateCulprit tctx e =
    (case find smappedNonLibrary (logFrames e @ exceptionFrames e) of
       None \<Rightarrow> e
     | Some fr \<Rightarrow> e\<lparr>Culprit := Some (culpritOf fr)\<rparr>)"
  using assms
  by (cases "Log e"; cases "Exception e")
     (simp_all add: updateCulprit_def Let_def find_two_lists findSmappedNonLibraryFrame_find
        logFrames_def exceptionFrames_def culpritOf_def split: option.split)

theorem updateCulprit_first_match_witness:
  "Culprit (updateCulprit context0 eventCulprit) = Some ''app.js in render'' \<and>
   Culprit (updateCulprit context0 (eventCulprit\<lparr>Log := None\<rparr>)) = Some ''main.js'' \<and>
   updateCulprit context0 (eventCulprit\<lparr>Log := None, Exception := None\<rparr>)
     = eventCulprit\<lparr>Log := None, Exception := None\<rparr> \<and>
   Culprit (eventCulprit\<lparr>Log := None, Exception := None\<rparr>) = Some ''client.js''"
proof -
  have s: "SmapMapper context0"
    by (simp add: context0_def)
  show ?thesis
    using updateCulprit_first_match [OF s, of eventCulprit]
      updateCulprit_first_match [OF s, of "eventCulprit\<lparr>Log := None\<rparr>"]
      updateCulprit_first_match [OF s, of "eventCulprit\<lparr>Log := None, Exception := None\<rparr>"]
    by (simp add: eventCulprit_def event0_def log0_def exception0_def frame0_def
        logFrames_def exceptionFrames_def smappedNonLibrary_def culpritOf_def)
qed

section \<open>Properties of the transformer\<close>

lemma utility_Set_same: "utility_Set m key v key = v"
  by (simp add: utility_Set_def split: option.split)

lemma utility_Set_other: "k \<noteq> key \<Longrightarrow> utility_Set m key v k = m k"
  by (simp add: utility_Set_def split: option.split)

lemma utility_Update_other: "k \<noteq> key \<Longrightarrow> utility_Update m key v k = m k"
  by (simp add: utility_Update_def split: option.split)

lemma utility_DeepUpdate_other: "k \<noteq> key \<Longrightarrow> utility_DeepUpdate m key v k = m k"
  by (simp add: utility_DeepUpdate_def split: option.split)

lemma utility_AddId_other: "k \<noteq> key \<Longrightarrow> utility_AddId m key v k = m k"
  by (simp add: utility_AddId_def split: option.split)

lemmas utility_other =
  utility_Set_other utility_Update_other utility_DeepUpdate_other utility_AddId_other

lemma addException_keeps:
  "TransactionId (addException X tctx e) = TransactionId e"
  "TransactionType (addException X tctx e) = TransactionType e"
  "TransactionSampled (addException X tctx e) = TransactionSampled e"
  "Event.Timestamp (addException X tctx e) = Event.Timestamp e"
  "Culprit (addException X tctx e) = Culprit e"
  by (simp_all add: addException_def Let_def Event_add_def
      split: option.split val.split prod.split)

lemma addLog_keeps:
  "TransactionId (addLog X tctx e) = TransactionId e"
  "TransactionType (addLog X tctx e) = TransactionType e"
  "TransactionSampled (addLog X tctx e) = TransactionSampled e"
  "Event.Timestamp (addLog X tctx e) = Event.Timestamp e"
  "data (addLog X tctx e) k = (if k = ''log'' \<and> Log e \<noteq> None then data (addLog X tctx e) k else data e k)"
  by (simp_all add: addLog_def Let_def Event_add_def utility_Set_def
      split: option.split prod.split)

lemma updateCulprit_keeps:
  "TransactionId (updateCulprit tctx e) = TransactionId e"
  "TransactionType (updateCulprit tctx e) = TransactionType e"
  "TransactionSampled (updateCulprit tctx e) = TransactionSampled e"
  "Event.Timestamp (updateCulprit tctx e) = Event.Timestamp e"
  "data (updateCulprit tctx e) = data e"
  by (simp_all add: updateCulprit_def Let_def split: option.split)

lemma Event_fields_keeps:
  "TransactionId (snd (Event_fields X tctx e)) = TransactionId e"
  "TransactionType (snd (Event_fields X tctx e)) = TransactionType e"
  "TransactionSampled (snd (Event_fields X tctx e)) = TransactionSampled e"
  "Event.Timestamp (snd (Event_fields X tctx e)) = Event.Timestamp e"
  by (simp_all add: Event_fields_def Let_def addGroupingKey_def Event_add_def
      updateCulprit_keeps addLog_keeps addException_keeps)

lemma transaction_map:
  "utility_Set
     (utility_Set (utility_Set Map.empty ''id'' (map_option VStr (TransactionId e)))
        ''type'' (map_option VStr (TransactionType e)))
     ''sampled'' (map_option VBool (TransactionSampled e)) = transactionObject e"
  by (rule ext) (simp add: utility_Set_def transactionObject_def split: option.split)

text \<open>
  C5. The document of the transformed event has a transaction sub-object exactly when
  the sampled flag is present, or the transaction type is present, or the transaction
  identifier is present and not empty, and the sub-object holds those of id, type and
  sampled that are present. The metadata of the request is written by another package:
  it is taken not to write the key "transaction".
\<close>

theorem transaction_emission:
  assumes "\<And>f. Metadata_Set tctx f ''transaction'' = f ''transaction''"
  shows "\<exists>doc. map Fields (fst (Transform X tctx c e)) = [doc] \<and>
    doc ''transaction'' =
      (if transactionCondition e then Some (VMap (transactionObject e)) else None)"
proof -
  have cond: "transactionCondition e =
      (TransactionSampled e \<noteq> None \<or> TransactionType e \<noteq> None \<or>
       (case TransactionId e of None \<Rightarrow> False | Some s \<Rightarrow> s \<noteq> []))"
    by (simp add: transactionCondition_def split: option.split)
  show ?thesis
    unfolding cond
    by (simp add: Transform_def Let_def case_prod_beta Event_fields_keeps utility_other
        utility_Set_same transaction_map assms)
qed

theorem transaction_emission_witness:
  "(\<exists>doc. map Fields (fst (Transform collaborators0 context0 counters0 eventSampledOnly)) = [doc] \<and>
      doc ''transaction'' = Some (VMap (transactionObject eventSampledOnly))) \<and>
   transactionObject eventSampledOnly ''sampled'' = Some (VBool False) \<and>
   transactionObject eventSampledOnly ''id'' = None \<and>
   transactionObject eventSampledOnly ''type'' = None \<and>
   (\<exists>doc. map Fields (fst (Transform collaborators0 context0 counters0 event0)) = [doc] \<and>
      doc ''transaction'' = None) \<and>
   (\<exists>doc. map Fields (fst (Transform collaborators0 context0 counters0 eventEmptyTransactionId)) = [doc] \<and>
      doc ''transaction'' = None)"
proof -
  have md: "\<And>f. Metadata_Set context0 f ''transaction'' = f ''transaction''"
    by (simp add: context0_def)
  have a: "transactionCondition eventSampledOnly"
    by (simp add: transactionCondition_def eventSampledOnly_def event0_def)
  have b: "\<not> transactionCondition event0"
    by (simp add: transactionCondition_def event0_def)
  have c: "\<not> transactionCondition eventEmptyTransactionId"
    by (simp add: transactionCondition_def eventEmptyTransactionId_def event0_def)
  have d: "transactionObject eventSampledOnly ''sampled'' = Some (VBool False) \<and>
     transactionObject eventSampledOnly ''id'' = None \<and>
     transactionObject eventSampledOnly ''type'' = None"
    by (simp add: transactionObject_def eventSampledOnly_def event0_def)
  show ?thesis
    using transaction_emission [OF md, of collaborators0 counters0 eventSampledOnly]
      transaction_emission [OF md, of collaborators0 counters0 event0]
      transaction_emission [OF md, of collaborators0 counters0 eventEmptyTransactionId]
      a b c d
    by simp
qed

text \<open>
  C7. The transformed event carries the timestamp of the event, or the time of the
  request when the timestamp of the event is the zero value, and its document has this
  instant under "timestamp" in microseconds since the epoch; an event with a timestamp
  of its own gets the same timestamp whatever the time of the request.
\<close>

theorem timestamp_resolution:
  "\<exists>doc. fst (Transform X tctx c e) =
      [\<lparr>Fields = doc,
        Timestamp = (if IsZero (Event.Timestamp e) then RequestTime tctx else Event.Timestamp e)\<rparr>] \<and>
    doc ''timestamp'' =
      Some (VInt (utility_TimeAsMicros
        (if IsZero (Event.Timestamp e) then RequestTime tctx else Event.Timestamp e))) \<and>
    (\<not> IsZero (Event.Timestamp e) \<longrightarrow>
       map beat_Event.Timestamp (fst (Transform X (tctx\<lparr>RequestTime := T\<rparr>) c e))
         = map beat_Event.Timestamp (fst (Transform X tctx c e)) \<and>
       map (\<lambda>ev. Fields ev ''timestamp'') (fst (Transform X (tctx\<lparr>RequestTime := T\<rparr>) c e))
         = map (\<lambda>ev. Fields ev ''timestamp'') (fst (Transform X tctx c e)))"
  by (simp add: Transform_def Let_def case_prod_beta Event_fields_keeps utility_Set_same)

theorem timestamp_resolution_witness:
  "(\<exists>doc. fst (Transform collaborators0 context0 counters0 event0) =
      [\<lparr>Fields = doc, Timestamp = unixEpoch + 5000\<rparr>] \<and>
      doc ''timestamp'' = Some (VInt 5)) \<and>
   (\<exists>doc. fst (Transform collaborators0 context0 counters0
        (event0\<lparr>Event.Timestamp := unixEpoch + 9000\<rparr>)) =
      [\<lparr>Fields = doc, Timestamp = unixEpoch + 9000\<rparr>] \<and>
      doc ''timestamp'' = Some (VInt 9))"
proof -
  have z: "IsZero (Event.Timestamp event0)"
    by (simp add: IsZero_def event0_def)
  have nz: "\<not> IsZero (Event.Timestamp (event0\<lparr>Event.Timestamp := unixEpoch + 9000\<rparr>))"
    by (simp add: IsZero_def unixEpoch_def)
  have r: "RequestTime context0 = unixEpoch + 5000"
    by (simp add: context0_def)
  have one: "\<exists>doc. fst (Transform collaborators0 context0 counters0 event0) =
      [\<lparr>Fields = doc, Timestamp = unixEpoch + 5000\<rparr>] \<and>
      doc ''timestamp'' = Some (VInt 5)"
    using timestamp_resolution [of collaborators0 context0 counters0 event0 0] z r
    by (simp add: utility_TimeAsMicros_def)
  have two: "\<exists>doc. fst (Transform collaborators0 context0 counters0
        (event0\<lparr>Event.Timestamp := unixEpoch + 9000\<rparr>)) =
      [\<lparr>Fields = doc, Timestamp = unixEpoch + 9000\<rparr>] \<and>
      doc ''timestamp'' = Some (VInt 9)"
    using timestamp_resolution [of collaborators0 context0 counters0
        "event0\<lparr>Event.Timestamp := unixEpoch + 9000\<rparr>" 0] nz
    by (auto simp add: utility_TimeAsMicros_def)
  from one two show ?thesis
    by blast
qed

lemma addException_code:
  assumes "Exception e = Some exc"
  shows "\<exists>ex. data (addException X tctx e) ''exception'' = Some (VSlice [VMap ex]) \<and>
    ex ''code'' =
      (case Code exc of
         VInt n \<Rightarrow> Some (VStr (Itoa n))
       | VFloat x \<Rightarrow> Some (VStr (Sprintf_f0 X x))
       | VStr s \<Rightarrow> Some (VStr s)
       | VNumber s \<Rightarrow> Some (VStr s)
       | VNil \<Rightarrow> None
       | VBool b \<Rightarrow> None
       | VMap m \<Rightarrow> None
       | VSlice vs \<Rightarrow> None)"
  using assms
  by (cases "Code exc")
     (simp_all add: addException_def Let_def Event_add_def utility_Set_same utility_Set_other
        split: prod.split)

lemma Event_fields_exception:
  "fst (Event_fields X tctx e) ''exception'' =
     data (addException X tctx
       (Event_add (Event_add (e\<lparr>data := Map.empty\<rparr>) ''id'' (map_option VStr (Id' e)))
          ''page'' (Page_Fields X (Page e)))) ''exception''"
  by (simp add: Event_fields_def Let_def addGroupingKey_def Event_add_def utility_Set_other
      updateCulprit_keeps addLog_keeps)

text \<open>
  C6. For an event with an exception, the exception object of the error document has
  under "code" the decimal string of an integer code, the \<^verbatim>\<open>%.0f\<close> formatting of a
  floating-point code, a string code itself and the string of an arbitrary-precision
  number; for a code of any other type the object has no field "code", and the
  transformer returns its one document all the same.
\<close>

theorem exception_code_emission:
  assumes "Exception e = Some exc"
  shows "\<exists>ex. fst (Event_fields X tctx e) ''exception'' = Some (VSlice [VMap ex]) \<and>
    ex ''code'' =
      (case Code exc of
         VInt n \<Rightarrow> Some (VStr (Itoa n))
       | VFloat x \<Rightarrow> Some (VStr (Sprintf_f0 X x))
       | VStr s \<Rightarrow> Some (VStr s)
       | VNumber s \<Rightarrow> Some (VStr s)
       | VNil \<Rightarrow> None
       | VBool b \<Rightarrow> None
       | VMap m \<Rightarrow> None
       | VSlice vs \<Rightarrow> None) \<and>
    length (fst (Transform X tctx c e)) = 1"
proof -
  let ?e = "Event_add (Event_add (e\<lparr>data := Map.empty\<rparr>) ''id'' (map_option VStr (Id' e)))
          ''page'' (Page_Fields X (Page e))"
  have "Exception ?e = Some exc"
    using assms by (simp add: Event_add_def)
  from addException_code [OF this, of X tctx]
  have "\<exists>ex. fst (Event_fields X tctx e) ''exception'' = Some (VSlice [VMap ex]) \<and>
    ex ''code'' =
      (case Code exc of
         VInt n \<Rightarrow> Some (VStr (Itoa n))
       | VFloat x \<Rightarrow> Some (VStr (Sprintf_f0 X x))
       | VStr s \<Rightarrow> Some (VStr s)
       | VNumber s \<Rightarrow> Some (VStr s)
       | VNil \<Rightarrow> None
       | VBool b \<Rightarrow> None
       | VMap m \<Rightarrow> None
       | VSlice vs \<Rightarrow> None)"
    by (simp only: Event_fields_exception)
  moreover have "length (fst (Transform X tctx c e)) = 1"
    by (simp add: Transform_def Let_def case_prod_beta)
  ultimately show ?thesis
    by blast
qed

theorem exception_code_emission_witness:
  "(\<exists>ex. fst (Event_fields collaborators0 context0 (eventWithCode (VInt 7))) ''exception''
        = Some (VSlice [VMap ex]) \<and> ex ''code'' = Some (VStr ''7'')) \<and>
   (\<exists>ex. fst (Event_fields collaborators0 context0 (eventWithCode (VStr ''ABC''))) ''exception''
        = Some (VSlice [VMap ex]) \<and> ex ''code'' = Some (VStr ''ABC'')) \<and>
   (\<exists>ex. fst (Event_fields collaborators0 context0 (eventWithCode (VNumber ''7.50''))) ''exception''
        = Some (VSlice [VMap ex]) \<and> ex ''code'' = Some (VStr ''7.50'')) \<and>
   (\<exists>ex. fst (Event_fields collaborators0 context0 (eventWithCode (VBool True))) ''exception''
        = Some (VSlice [VMap ex]) \<and> ex ''code'' = None) \<and>
   length (fst (Transform collaborators0 context0 counters0 (eventWithCode (VBool True)))) = 1"
proof -
  have i: "Itoa 7 = ''7''"
    by code_simp
  have ex: "\<And>code. Exception (eventWithCode code)
      = Some (exception0\<lparr>Exception.Message := Some ''boom'', Code := code\<rparr>)"
    by (simp add: eventWithCode_def event0_def)
  show ?thesis
    using exception_code_emission [OF ex, of collaborators0 context0 "VInt 7" counters0]
      exception_code_emission [OF ex, of collaborators0 context0 "VStr ''ABC''" counters0]
      exception_code_emission [OF ex, of collaborators0 context0 "VNumber ''7.50''" counters0]
      exception_code_emission [OF ex, of collaborators0 context0 "VBool True" counters0]
    by (simp add: i) blast
qed

section \<open>Properties of the decoder\<close>

lemma fail_ofFailures: "fail (ofFailures paths) path = ofFailures (paths @ [path])"
  by (simp add: fail_def ofFailures_def)

lemma ofFailures_None: "(ofFailures paths = None) = (paths = [])"
  by (simp add: ofFailures_def)

lemma StringPtr_run:
  "StringPtr \<lparr>Err = ofFailures paths\<rparr> base key keys =
     (stringValue (getDeep base keys key),
      \<lparr>Err = ofFailures (paths @ fieldFailure KString base keys key)\<rparr>)"
  by (simp add: StringPtr_def fieldFailure_def fail_ofFailures stringValue_def
      split: option.split val.split)

lemma BoolPtr_run:
  "BoolPtr \<lparr>Err = ofFailures paths\<rparr> base key keys =
     ((case getDeep base keys key of Some (VBool b) \<Rightarrow> Some b | _ \<Rightarrow> None),
      \<lparr>Err = ofFailures (paths @ fieldFailure KBool base keys key)\<rparr>)"
  by (simp add: BoolPtr_def fieldFailure_def fail_ofFailures split: option.split val.split)

lemma TimeEpochMicro_run:
  "TimeEpochMicro \<lparr>Err = ofFailures paths\<rparr> base key =
     ((case base key of Some (VInt micros) \<Rightarrow> unixEpoch + micros * 1000 | _ \<Rightarrow> 0),
      \<lparr>Err = ofFailures (paths @ fieldFailure KTime base [] key)\<rparr>)"
  by (simp add: TimeEpochMicro_def fieldFailure_def fail_ofFailures
      split: option.split val.split)

lemma decoder_MapStr_run:
  "decoder_MapStr \<lparr>Err = ofFailures paths\<rparr> base key =
     (rawBundle base key, \<lparr>Err = ofFailures (paths @ fieldFailure KMap base [] key)\<rparr>)"
  by (simp add: decoder_MapStr_def fieldFailure_def fail_ofFailures rawBundle_def
      split: option.split val.split)

lemma DecodeStacktrace_run:
  "DecodeStacktrace D input (ofFailures paths) =
     ((case input of
         None \<Rightarrow> None
       | Some VNil \<Rightarrow> None
       | Some v \<Rightarrow> DecodeStacktraceFrames D v),
      ofFailures (paths @ stacktraceFailure D input))"
  by (simp add: DecodeStacktrace_def stacktraceFailure_def fail_ofFailures
      split: option.split val.split)

lemmas decoder_run =
  StringPtr_run BoolPtr_run TimeEpochMicro_run decoder_MapStr_run DecodeStacktrace_run

lemma isString_value:
  "(stringValue v \<noteq> None) = isString v"
  "(stringValue v = None) = (\<not> isString v)"
  "(\<exists>s. stringValue v = Some s) = isString v"
  by (simp_all add: isString_def stringValue_def split: option.split val.split)

lemma decodeException_failures:
  "snd (decodeException D raw (e, \<lparr>Err = ofFailures paths\<rparr>)) =
     \<lparr>Err = ofFailures (paths @ attemptedExceptionFailures D raw)\<rparr>"
  by (simp add: decodeException_def Let_def decoder_run attemptedExceptionFailures_def
      isString_value del: not_None_eq)

lemma decodeException_constructed:
  "Exception e = None \<Longrightarrow>
   (Exception (fst (decodeException D raw (e, \<lparr>Err = ofFailures paths\<rparr>))) \<noteq> None) =
     (isString (rawBundle raw ''exception'' ''message'') \<or>
      isString (rawBundle raw ''exception'' ''type''))"
  by (auto simp add: decodeException_def Let_def decoder_run isString_value
      simp del: not_None_eq)

lemma decodeException_keeps:
  "Log (fst (decodeException D raw (e, d))) = Log e"
  by (simp add: decodeException_def Let_def case_prod_beta)

lemma decodeLog_failures:
  "snd (decodeLog D raw (e, \<lparr>Err = ofFailures paths\<rparr>)) =
     \<lparr>Err = ofFailures (paths @ attemptedLogFailures D raw)\<rparr>"
  by (simp add: decodeLog_def Let_def decoder_run attemptedLogFailures_def isString_def stringValue_def
      split: option.split val.split)

lemma decodeLog_constructed:
  "Log e = None \<Longrightarrow>
   (Log (fst (decodeLog D raw (e, \<lparr>Err = ofFailures paths\<rparr>))) \<noteq> None) =
     isString (rawBundle raw ''log'' ''message'')"
  by (simp add: decodeLog_def Let_def decoder_run isString_def stringValue_def
      split: option.split val.split)

lemma decodeLog_keeps:
  "Exception (fst (decodeLog D raw (e, d))) = Exception e"
  by (simp add: decodeLog_def Let_def case_prod_beta split: option.split)

lemma decoder_start: "\<lparr>Err = None\<rparr> = \<lparr>Err = ofFailures []\<rparr>"
  by (simp add: ofFailures_def)

lemma decode_steps:
  "snd (decodeLog D raw (decodeException D raw (e, \<lparr>Err = ofFailures paths\<rparr>))) =
     \<lparr>Err = ofFailures (paths @ attemptedExceptionFailures D raw @ attemptedLogFailures D raw)\<rparr>"
proof -
  have "decodeException D raw (e, \<lparr>Err = ofFailures paths\<rparr>) =
      (fst (decodeException D raw (e, \<lparr>Err = ofFailures paths\<rparr>)),
       \<lparr>Err = ofFailures (paths @ attemptedExceptionFailures D raw)\<rparr>)"
    by (rule prod_eqI) (simp_all add: decodeException_failures)
  then show ?thesis
    by (elim ssubst) (simp add: decodeLog_failures)
qed

lemma decode_steps_constructed:
  assumes "Exception e = None" and "Log e = None"
  shows "(Exception (fst (decodeLog D raw (decodeException D raw (e, \<lparr>Err = ofFailures paths\<rparr>))))
            \<noteq> None) =
         (isString (rawBundle raw ''exception'' ''message'') \<or>
          isString (rawBundle raw ''exception'' ''type''))"
    and "(Log (fst (decodeLog D raw (decodeException D raw (e, \<lparr>Err = ofFailures paths\<rparr>))))
            \<noteq> None) =
         isString (rawBundle raw ''log'' ''message'')"
proof -
  let ?s = "decodeException D raw (e, \<lparr>Err = ofFailures paths\<rparr>)"
  have pair: "?s = (fst ?s, \<lparr>Err = ofFailures (paths @ attemptedExceptionFailures D raw)\<rparr>)"
    by (rule prod_eqI) (simp_all add: decodeException_failures)
  have "Exception (fst (decodeLog D raw ?s)) = Exception (fst ?s)"
    by (subst pair) (rule decodeLog_keeps)
  then show "(Exception (fst (decodeLog D raw ?s)) \<noteq> None) =
         (isString (rawBundle raw ''exception'' ''message'') \<or>
          isString (rawBundle raw ''exception'' ''type''))"
    using assms(1) by (simp add: decodeException_constructed del: not_None_eq)
  have "Log (fst ?s) = None"
    using assms(2) by (simp add: decodeException_keeps)
  then have "(Log (fst (decodeLog D raw (fst ?s,
        \<lparr>Err = ofFailures (paths @ attemptedExceptionFailures D raw)\<rparr>))) \<noteq> None) =
      isString (rawBundle raw ''log'' ''message'')"
    by (rule decodeLog_constructed)
  then show "(Log (fst (decodeLog D raw ?s)) \<noteq> None) =
         isString (rawBundle raw ''log'' ''message'')"
    by (subst pair)
qed

lemma decodeFields_failures:
  "snd (decodeFields raw ctx) = \<lparr>Err = ofFailures (eventFailures raw)\<rparr>"
  by (simp add: decodeFields_def Let_def decoder_start decoder_run eventFailures_def)

lemma decodeFields_fresh:
  "Exception (fst (decodeFields raw ctx)) = None"
  "Log (fst (decodeFields raw ctx)) = None"
  by (simp_all add: decodeFields_def Let_def case_prod_beta)

lemma decodeFields_pair:
  "decodeFields raw ctx =
     (fst (decodeFields raw ctx), \<lparr>Err = ofFailures (eventFailures raw)\<rparr>)"
  by (rule prod_eqI) (simp_all add: decodeFields_failures)

lemma DecodeEvent_error:
  assumes "DecodeContext D raw cfg = Inr ctx"
  shows "snd (DecodeEvent D (VMap raw) cfg None) = ofFailures (attemptedFailures D raw)"
  using assms
  by (simp add: DecodeEvent_def Let_def case_prod_beta decodeFields_failures decode_steps
      attemptedFailures_def)

lemma DecodeEvent_event:
  assumes "DecodeContext D raw cfg = Inr ctx"
    and "fst (DecodeEvent D (VMap raw) cfg None) = Some e"
  shows "e = fst (decodeLog D raw (decodeException D raw
           (fst (decodeFields raw ctx), \<lparr>Err = ofFailures (eventFailures raw)\<rparr>)))"
  using assms
  by (simp add: DecodeEvent_def Let_def case_prod_beta decodeFields_failures
      split: if_splits)

lemma DecodeEvent_never_partial:
  "(fst (DecodeEvent D input cfg err) = None) = (snd (DecodeEvent D input cfg err) \<noteq> None)"
  by (simp add: DecodeEvent_def Let_def case_prod_beta split: option.split val.split sum.split)

lemma DecodeEvent_constructed:
  assumes "DecodeContext D raw cfg = Inr ctx"
    and "fst (DecodeEvent D (VMap raw) cfg None) = Some e"
  shows "(Exception e \<noteq> None) =
         (isString (rawBundle raw ''exception'' ''message'') \<or>
          isString (rawBundle raw ''exception'' ''type''))"
    and "(Log e \<noteq> None) = isString (rawBundle raw ''log'' ''message'')"
  unfolding DecodeEvent_event [OF assms]
  by (rule decode_steps_constructed; rule decodeFields_fresh)+

lemma string_field_present:
  "fieldFailure KString base [] key = [] \<Longrightarrow> isString (base key) = nonNull (base key)"
  by (cases "base key")
     (auto simp add: fieldFailure_def isString_def nonNull_def split: val.splits if_splits)

lemma DecodeEvent_accepted:
  assumes "DecodeEvent D input cfg err = (Some e, None)"
  shows "\<exists>raw ctx. input = VMap raw \<and> err = None \<and> DecodeContext D raw cfg = Inr ctx"
  using assms
  by (auto simp add: DecodeEvent_def split: option.splits val.splits sum.splits)

text \<open>
  C8. For a record that the decoder accepts, the exception object of the event is
  constructed exactly when the exception of the record has a message or a type that is
  present and not null, and the log object exactly when the log of the record has such
  a message: an empty string is present.
\<close>

theorem event_construction:
  assumes "DecodeEvent D input cfg err = (Some e, None)"
  shows "\<exists>raw. input = VMap raw \<and>
    (Exception e \<noteq> None) =
      (nonNull (rawBundle raw ''exception'' ''message'') \<or>
       nonNull (rawBundle raw ''exception'' ''type'')) \<and>
    (Log e \<noteq> None) = nonNull (rawBundle raw ''log'' ''message'')"
proof -
  from DecodeEvent_accepted [OF assms]
  obtain raw ctx where input: "input = VMap raw" and err: "err = None"
    and ctx: "DecodeContext D raw cfg = Inr ctx"
    by auto
  from assms input err have ev: "fst (DecodeEvent D (VMap raw) cfg None) = Some e"
    and no: "snd (DecodeEvent D (VMap raw) cfg None) = None"
    by simp_all
  from no have "attemptedFailures D raw = []"
    by (simp add: DecodeEvent_error [OF ctx] ofFailures_None)
  then have m: "fieldFailure KString (rawBundle raw ''exception'') [] ''message'' = []"
    and t: "fieldFailure KString (rawBundle raw ''exception'') [] ''type'' = []"
    and l: "fieldFailure KString (rawBundle raw ''log'') [] ''message'' = []"
    by (simp_all add: attemptedFailures_def attemptedExceptionFailures_def attemptedLogFailures_def)
  have "(Exception e \<noteq> None) =
      (nonNull (rawBundle raw ''exception'' ''message'') \<or>
       nonNull (rawBundle raw ''exception'' ''type''))"
    using DecodeEvent_constructed(1) [OF ctx ev]
    by (simp only: string_field_present [OF m] string_field_present [OF t])
  moreover have "(Log e \<noteq> None) = nonNull (rawBundle raw ''log'' ''message'')"
    using DecodeEvent_constructed(2) [OF ctx ev]
    by (simp only: string_field_present [OF l])
  ultimately show ?thesis
    using input by blast
qed

theorem event_construction_witness:
  "\<forall>cfg. (\<exists>e. DecodeEvent decoders0 (VMap rawEmptyMessages) cfg None = (Some e, None) \<and>
            Exception e \<noteq> None \<and> Log e \<noteq> None) \<and>
         (\<exists>e. DecodeEvent decoders0 (VMap rawNullMessages) cfg None = (Some e, None) \<and>
            Exception e = None \<and> Log e = None)"
proof (intro allI conjI)
  fix cfg
  have ctx: "\<And>raw. raw ''context'' = None \<Longrightarrow> DecodeContext decoders0 raw cfg =
      Inr \<lparr>model_Context.User = None, Labels = None, Page = None,
           Http = None, Url = None, Custom = None, Service = None, Experimental = VNil\<rparr>"
    by (simp add: decoders0_def)
  have c1: "rawEmptyMessages ''context'' = None"
    by (simp add: rawEmptyMessages_def)
  have f1: "attemptedFailures decoders0 rawEmptyMessages = []"
    by (simp add: attemptedFailures_def eventFailures_def attemptedExceptionFailures_def attemptedLogFailures_def fieldFailure_def
        stacktraceFailure_def rawBundle_def rawEmptyMessages_def isString_def)
  have "snd (DecodeEvent decoders0 (VMap rawEmptyMessages) cfg None) = None"
    by (simp add: DecodeEvent_error [OF ctx [of rawEmptyMessages, OF c1]] f1 ofFailures_def)
  then obtain e where e: "DecodeEvent decoders0 (VMap rawEmptyMessages) cfg None = (Some e, None)"
    using DecodeEvent_never_partial [of decoders0 "VMap rawEmptyMessages" cfg None]
    by (cases "DecodeEvent decoders0 (VMap rawEmptyMessages) cfg None") auto
  from event_construction [OF e]
  have "Exception e \<noteq> None \<and> Log e \<noteq> None"
    by (simp add: nonNull_def rawBundle_def rawEmptyMessages_def)
  with e show "\<exists>e. DecodeEvent decoders0 (VMap rawEmptyMessages) cfg None = (Some e, None) \<and>
            Exception e \<noteq> None \<and> Log e \<noteq> None"
    by blast
  have c2: "rawNullMessages ''context'' = None"
    by (simp add: rawNullMessages_def)
  have f2: "attemptedFailures decoders0 rawNullMessages = []"
    by (simp add: attemptedFailures_def eventFailures_def attemptedExceptionFailures_def attemptedLogFailures_def fieldFailure_def
        stacktraceFailure_def rawBundle_def rawNullMessages_def isString_def)
  have "snd (DecodeEvent decoders0 (VMap rawNullMessages) cfg None) = None"
    by (simp add: DecodeEvent_error [OF ctx [of rawNullMessages, OF c2]] f2 ofFailures_def)
  then obtain e' where e': "DecodeEvent decoders0 (VMap rawNullMessages) cfg None = (Some e', None)"
    using DecodeEvent_never_partial [of decoders0 "VMap rawNullMessages" cfg None]
    by (cases "DecodeEvent decoders0 (VMap rawNullMessages) cfg None") auto
  from event_construction [OF e']
  have "Exception e' = None \<and> Log e' = None"
    by (simp add: nonNull_def rawBundle_def rawNullMessages_def)
  with e' show "\<exists>e. DecodeEvent decoders0 (VMap rawNullMessages) cfg None = (Some e, None) \<and>
            Exception e = None \<and> Log e = None"
    by blast
qed

lemma attemptedFailures_all:
  assumes "isString (rawBundle raw ''exception'' ''message'') \<or>
           isString (rawBundle raw ''exception'' ''type'')"
    and "isString (rawBundle raw ''log'' ''message'')"
  shows "attemptedFailures D raw = allFieldFailures D raw"
  using assms
  by (simp add: attemptedFailures_def attemptedExceptionFailures_def
      attemptedLogFailures_def allFieldFailures_def)

text \<open>
  C9, as stated, fails: the failures of the fields of an exception or a log are not
  all accumulated. In the record \<open>rawGated\<close> the messages of the exception and of the
  log have the wrong type, so neither object is constructed, and the exception's
  module, handled flag and stacktrace and the log's level and stacktrace, all
  malformed, are never attempted: of the seven failures of the record the error
  returned holds the two of the messages.
\<close>

theorem DecodeEvent_gated_counterexample:
  "DecodeEvent decoders0 (VMap rawGated) (Config False) None =
     (None, Some (FieldDecodeErrors [[''message''], [''message'']])) \<and>
   allFieldFailures decoders0 rawGated =
     [[''message''], [''module''], [''handled''], [''stacktrace''],
      [''message''], [''level''], [''stacktrace'']]"
proof -
  have ctx: "DecodeContext decoders0 rawGated (Config False) =
      Inr \<lparr>model_Context.User = None, Labels = None, Page = None,
           Http = None, Url = None, Custom = None, Service = None, Experimental = VNil\<rparr>"
    by (simp add: decoders0_def rawGated_def)
  have f: "attemptedFailures decoders0 rawGated = [[''message''], [''message'']]"
    by (simp add: attemptedFailures_def eventFailures_def attemptedExceptionFailures_def
        attemptedLogFailures_def fieldFailure_def stacktraceFailure_def rawBundle_def
        rawGated_def isString_def decoders0_def)
  have s: "snd (DecodeEvent decoders0 (VMap rawGated) (Config False) None) =
      Some (FieldDecodeErrors [[''message''], [''message'']])"
    by (simp add: DecodeEvent_error [OF ctx] f ofFailures_def)
  then have "fst (DecodeEvent decoders0 (VMap rawGated) (Config False) None) = None"
    by (simp add: DecodeEvent_never_partial)
  with s have "DecodeEvent decoders0 (VMap rawGated) (Config False) None =
     (None, Some (FieldDecodeErrors [[''message''], [''message'']]))"
    by (simp add: prod_eq_iff)
  moreover have "allFieldFailures decoders0 rawGated =
     [[''message''], [''module''], [''handled''], [''stacktrace''],
      [''message''], [''level''], [''stacktrace'']]"
    by (simp add: allFieldFailures_def eventFailures_def fieldFailure_def
        stacktraceFailure_def rawBundle_def rawGated_def decoders0_def)
  ultimately show ?thesis
    by blast
qed

text \<open>
  C9, amended. \<^verbatim>\<open>DecodeEvent\<close> returns at once, with no event, for a missing input
  and for an error of the context decoder. Otherwise it goes through every field it
  attempts without stopping at a failure: the fields of the event, the bundle, message
  and type of the exception, the bundle and message of the log, and the other fields
  and the stacktrace of the exception (of the log) when that object is constructed.
  Its error is the combination of the failures of these fields, and nil when there is
  none. Whenever it returns an error it returns no event, and it returns an event
  whenever it returns no error.
\<close>

theorem DecodeEvent_errors:
  "DecodeEvent D VNil cfg None = (None, Some MissingInput) \<and>
   (DecodeContext D raw cfg = Inl x \<longrightarrow>
      DecodeEvent D (VMap raw) cfg None = (None, Some x)) \<and>
   (DecodeContext D raw cfg = Inr ctx \<longrightarrow>
      snd (DecodeEvent D (VMap raw) cfg None) = ofFailures (attemptedFailures D raw)) \<and>
   (snd (DecodeEvent D input cfg err) \<noteq> None \<longrightarrow> fst (DecodeEvent D input cfg err) = None) \<and>
   (fst (DecodeEvent D input cfg err) = None \<longrightarrow> snd (DecodeEvent D input cfg err) \<noteq> None)"
proof (intro conjI impI)
  show "DecodeEvent D VNil cfg None = (None, Some MissingInput)"
    by (simp add: DecodeEvent_def)
next
  assume "DecodeContext D raw cfg = Inl x"
  then show "DecodeEvent D (VMap raw) cfg None = (None, Some x)"
    by (simp add: DecodeEvent_def)
next
  assume "DecodeContext D raw cfg = Inr ctx"
  then show "snd (DecodeEvent D (VMap raw) cfg None) = ofFailures (attemptedFailures D raw)"
    by (rule DecodeEvent_error)
next
  assume "snd (DecodeEvent D input cfg err) \<noteq> None"
  then show "fst (DecodeEvent D input cfg err) = None"
    using DecodeEvent_never_partial [of D input cfg err] by blast
next
  assume "fst (DecodeEvent D input cfg err) = None"
  then show "snd (DecodeEvent D input cfg err) \<noteq> None"
    using DecodeEvent_never_partial [of D input cfg err] by blast
qed

theorem DecodeEvent_errors_witness:
  "\<forall>cfg. DecodeEvent decoders0 VNil cfg None = (None, Some MissingInput) \<and>
     DecodeEvent decoders0 (VMap [''context'' \<mapsto> VStr ''bad'', ''id'' \<mapsto> VInt 3]) cfg None
       = (None, Some (ContextDecodeError ''bad'')) \<and>
     DecodeEvent decoders0 (VMap rawMalformed) cfg None
       = (None, Some (FieldDecodeErrors
           [[''id''], [''timestamp''], [''handled''], [''stacktrace''], [''level''],
            [''stacktrace'']]))"
proof (intro allI)
  fix cfg
  let ?bad = "[''context'' \<mapsto> VStr ''bad'', ''id'' \<mapsto> VInt 3]"
  have cb: "DecodeContext decoders0 ?bad cfg = Inl (ContextDecodeError ''bad'')"
    by (simp add: decoders0_def)
  have cm: "DecodeContext decoders0 rawMalformed cfg =
      Inr \<lparr>model_Context.User = None, Labels = None, Page = None,
           Http = None, Url = None, Custom = None, Service = None, Experimental = VNil\<rparr>"
    by (simp add: decoders0_def rawMalformed_def)
  have f: "attemptedFailures decoders0 rawMalformed =
      [[''id''], [''timestamp''], [''handled''], [''stacktrace''], [''level''], [''stacktrace'']]"
    by (simp add: attemptedFailures_def eventFailures_def attemptedExceptionFailures_def attemptedLogFailures_def fieldFailure_def
        stacktraceFailure_def rawBundle_def rawMalformed_def isString_def decoders0_def)
  note t1 = DecodeEvent_errors [of decoders0 cfg ?bad "ContextDecodeError ''bad''" _
      "VMap ?bad" None]
  note t2 = DecodeEvent_errors [of decoders0 cfg rawMalformed _ _ "VMap rawMalformed" None]
  have a: "DecodeEvent decoders0 VNil cfg None = (None, Some MissingInput)"
    using t1 by blast
  have b: "DecodeEvent decoders0 (VMap ?bad) cfg None = (None, Some (ContextDecodeError ''bad''))"
    using t1 cb by blast
  have "snd (DecodeEvent decoders0 (VMap rawMalformed) cfg None) =
      Some (FieldDecodeErrors
           [[''id''], [''timestamp''], [''handled''], [''stacktrace''], [''level''],
            [''stacktrace'']])"
    using t2 cm f by (simp add: ofFailures_def)
  moreover from this have "fst (DecodeEvent decoders0 (VMap rawMalformed) cfg None) = None"
    using t2 by simp
  ultimately have c: "DecodeEvent decoders0 (VMap rawMalformed) cfg None
       = (None, Some (FieldDecodeErrors
           [[''id''], [''timestamp''], [''handled''], [''stacktrace''], [''level''],
            [''stacktrace'']]))"
    by (simp add: prod_eq_iff)
  from a b c show "DecodeEvent decoders0 VNil cfg None = (None, Some MissingInput) \<and>
     DecodeEvent decoders0 (VMap ?bad) cfg None
       = (None, Some (ContextDecodeError ''bad'')) \<and>
     DecodeEvent decoders0 (VMap rawMalformed) cfg None
       = (None, Some (FieldDecodeErrors
           [[''id''], [''timestamp''], [''handled''], [''stacktrace''], [''level''],
            [''stacktrace'']]))"
    by blast
qed

end
